theory Spec2Isabelle
  imports Complex_Main "HOL-Library.Word"
begin

section \<open>Topographic map quality: the data\<close>

text \<open>
  The program \<^verbatim>\<open>evaluate_topomaps.py\<close> loads a rendered page as a Pillow image,
  degrades it (downscale and upscale, or Gaussian blur), measures the difference to the
  original with numpy and averages the resulting curves over a directory.

  Pillow images of the 8 bit modes and the arrays numpy makes of them hold unsigned bytes:
  a sample is an \<open>8 word\<close>, so that \<open>-\<close> and \<open>*\<close> wrap around as numpy's \<open>uint8\<close>
  arithmetic does. Python's integers (the levels) are \<open>int\<close>. A numpy \<open>float64\<close> is a
  real number or \<open>NaN\<close> (the mean of an empty array); rounding is not modelled.
\<close>

type_synonym pixel = "8 word"

datatype mode = Mode_L | Mode_RGB | Mode_RGBA

fun nbands :: "mode \<Rightarrow> nat" where
  "nbands Mode_L = 1"
| "nbands Mode_RGB = 3"
| "nbands Mode_RGBA = 4"

text \<open>
  A Pillow image: its size, its mode and its samples, \<open>px im k\<close> being sample \<open>k\<close> in
  row-major order with the bands of a pixel next to each other.
\<close>

record image =
  width :: nat
  height :: nat
  mode :: mode
  px :: "nat \<Rightarrow> pixel"

text \<open>A numpy array of dtype \<open>uint8\<close>: its shape and its buffer in C order.\<close>

record ndarray =
  shape :: "nat list"
  data :: "pixel list"

datatype npfloat = NaN | Float real

text \<open>
  A matplotlib figure of one row: its axes from left to right, each showing an array
  or nothing yet.
\<close>

type_synonym figure = "ndarray option list"

text \<open>
  The objects the program shares by reference: Pillow images (a closed one has released
  its raster) and the arrays made of them. A reference is an index into the heap, and
  a new object is put at its end.
\<close>

datatype obj = PImage image | Closed | NDArray ndarray

type_synonym ref = nat

datatype document = Pages "image list" | Figure figure

record state =
  heap :: "obj list"
  files :: "string \<rightharpoonup> document"
  dirs :: "string \<rightharpoonup> string list"
  writable :: "string \<Rightarrow> bool"

datatype error =
    FileAccessError
  | IndexError
  | InvalidObject
  | ResizeValueError
  | ShapeMismatch
  | NoneNotCallable
  | NotSubscriptable
  | NotIterable
  | InhomogeneousShape
  | InconsistentLength
  | AucTooFewPoints
  | AucNotMonotonic

text \<open>
  What the libraries compute and the program never inspects is a parameter: the samples
  Pillow's resampling filter and its Gaussian blur produce, and the page a saved figure
  turns into when it is read back.
\<close>

record libs =
  resample :: "image \<Rightarrow> nat \<times> nat \<Rightarrow> nat \<Rightarrow> pixel"
  gaussian :: "image \<Rightarrow> int \<Rightarrow> nat \<Rightarrow> pixel"
  render :: "figure \<Rightarrow> image"

section \<open>The heap\<close>

definition alloc :: "obj \<Rightarrow> state \<Rightarrow> ref \<times> state" where
  "alloc ob st = (length (heap st), st\<lparr>heap := heap st @ [ob]\<rparr>)"

definition get_image :: "state \<Rightarrow> ref \<Rightarrow> error + image" where
  "get_image st r =
     (if r < length (heap st)
      then (case heap st ! r of PImage im \<Rightarrow> Inr im | Closed \<Rightarrow> Inl InvalidObject
            | NDArray a \<Rightarrow> Inl InvalidObject)
      else Inl InvalidObject)"

definition get_array :: "state \<Rightarrow> ref \<Rightarrow> error + ndarray" where
  "get_array st r =
     (if r < length (heap st)
      then (case heap st ! r of NDArray a \<Rightarrow> Inr a | Closed \<Rightarrow> Inl InvalidObject
            | PImage im \<Rightarrow> Inl InvalidObject)
      else Inl InvalidObject)"

section \<open>Pillow\<close>

text \<open>
  \<^verbatim>\<open>Image.resize(size)\<close>: a copy when the size is the image's own; a \<open>ValueError\<close>
  (``height and width must be > 0'') when a side of the target is below one; otherwise a
  new image of the target size and the same mode, filled by the resampling filter. The
  image itself is left as it is.
\<close>

definition resize_image :: "libs \<Rightarrow> image \<Rightarrow> int \<times> int \<Rightarrow> error + image" where
  "resize_image lib im sz =
     (if (int (width im), int (height im)) = sz then Inr im
      else if fst sz < 1 \<or> snd sz < 1 then Inl ResizeValueError
      else Inr \<lparr>width = nat (fst sz), height = nat (snd sz), mode = mode im,
                px = resample lib im (nat (fst sz), nat (snd sz))\<rparr>)"

definition im_resize :: "libs \<Rightarrow> ref \<Rightarrow> int \<times> int \<Rightarrow> state \<Rightarrow> error + ref \<times> state" where
  "im_resize lib r sz st =
     (case get_image st r of
        Inl e \<Rightarrow> Inl e
      | Inr im \<Rightarrow>
          (case resize_image lib im sz of
             Inl e \<Rightarrow> Inl e
           | Inr im' \<Rightarrow> Inr (alloc (PImage im') st)))"

text \<open>\<^verbatim>\<open>img.size\<close>: width and height.\<close>

definition im_size :: "ref \<Rightarrow> state \<Rightarrow> error + int \<times> int" where
  "im_size r st =
     (case get_image st r of
        Inl e \<Rightarrow> Inl e
      | Inr im \<Rightarrow> Inr (int (width im), int (height im)))"

text \<open>
  \<^verbatim>\<open>img.filter(ImageFilter.GaussianBlur(radius))\<close>: a new image of the same size and
  mode.
\<close>

definition gaussian_blur :: "libs \<Rightarrow> image \<Rightarrow> int \<Rightarrow> image" where
  "gaussian_blur lib im radius = im\<lparr>px := gaussian lib im radius\<rparr>"

definition im_filter_gaussian :: "libs \<Rightarrow> ref \<Rightarrow> int \<Rightarrow> state \<Rightarrow> error + ref \<times> state" where
  "im_filter_gaussian lib r radius st =
     (case get_image st r of
        Inl e \<Rightarrow> Inl e
      | Inr im \<Rightarrow> Inr (alloc (PImage (gaussian_blur lib im radius)) st))"

text \<open>\<^verbatim>\<open>img.close()\<close> releases the raster; the object stays where it is.\<close>

definition im_close :: "ref \<Rightarrow> state \<Rightarrow> error + state" where
  "im_close r st =
     (if r < length (heap st) then Inr (st\<lparr>heap := (heap st)[r := Closed]\<rparr>)
      else Inl InvalidObject)"

section \<open>numpy\<close>

text \<open>
  \<^verbatim>\<open>np.asarray(img)\<close> copies the samples into a new array of shape (height, width) for
  a one-band image and (height, width, bands) otherwise.
\<close>

definition array_of :: "image \<Rightarrow> ndarray" where
  "array_of im =
     \<lparr>shape = (if mode im = Mode_L then [height im, width im]
               else [height im, width im, nbands (mode im)]),
      data = map (px im) [0 ..< height im * width im * nbands (mode im)]\<rparr>"

definition np_asarray :: "ref \<Rightarrow> state \<Rightarrow> error + ref \<times> state" where
  "np_asarray r st =
     (case get_image st r of
        Inl e \<Rightarrow> Inl e
      | Inr im \<Rightarrow> Inr (alloc (NDArray (array_of im)) st))"

text \<open>
  \<^verbatim>\<open>a - b\<close> and \<^verbatim>\<open>np.square(a)\<close> on \<open>uint8\<close> arrays stay in \<open>uint8\<close> and wrap
  around. For two shapes that differ numpy tries to broadcast; the program only ever
  subtracts arrays of one shape, so that case is an error here.
\<close>

definition np_subtract :: "ndarray \<Rightarrow> ndarray \<Rightarrow> error + ndarray" where
  "np_subtract a b =
     (if shape a = shape b
      then Inr \<lparr>shape = shape a, data = map (\<lambda>(x, y). x - y) (zip (data a) (data b))\<rparr>
      else Inl ShapeMismatch)"

definition np_square :: "ndarray \<Rightarrow> ndarray" where
  "np_square a = a\<lparr>data := map (\<lambda>x. x * x) (data a)\<rparr>"

text \<open>\<^verbatim>\<open>a.mean()\<close> of a \<open>uint8\<close> array is a \<open>float64\<close>: \<open>NaN\<close> for an empty array.\<close>

definition np_mean :: "ndarray \<Rightarrow> npfloat" where
  "np_mean a =
     (if data a = [] then NaN
      else Float (real (sum_list (map unat (data a))) / real (length (data a))))"

text \<open>Line 73: \<^verbatim>\<open>np.square(arr_img - arr_img_changed).mean()\<close>.\<close>

definition image_err :: "ndarray \<Rightarrow> ndarray \<Rightarrow> error + npfloat" where
  "image_err arr_img arr_img_changed =
     (case np_subtract arr_img arr_img_changed of
        Inl e \<Rightarrow> Inl e
      | Inr d \<Rightarrow> Inr (np_mean (np_square d)))"

section \<open>The degradation operators\<close>

definition topomap_rescale :: "libs \<Rightarrow> ref \<Rightarrow> int \<Rightarrow> state \<Rightarrow> error + ref \<times> state" where
  "topomap_rescale lib img shrink_size st =
     (let shrink_size' = 55 - (shrink_size * 5) in
      case im_resize lib img (shrink_size', shrink_size') st of
        Inl e \<Rightarrow> Inl e
      | Inr (res_img, st1) \<Rightarrow>
          (case im_size img st1 of
             Inl e \<Rightarrow> Inl e
           | Inr sz \<Rightarrow>
               (case im_resize lib res_img sz st1 of
                  Inl e \<Rightarrow> Inl e
                | Inr (res_img_big, st2) \<Rightarrow> np_asarray res_img_big st2)))"

definition topomap_blur :: "libs \<Rightarrow> ref \<Rightarrow> int \<Rightarrow> state \<Rightarrow> error + ref \<times> state" where
  "topomap_blur lib img radius st =
     (let radius' = (radius * 2) + 2 in
      case im_filter_gaussian lib img radius' st of
        Inl e \<Rightarrow> Inl e
      | Inr (blur_img, st1) \<Rightarrow> np_asarray blur_img st1)"

section \<open>Documents, paths and figures\<close>

text \<open>
  \<^verbatim>\<open>convert_from_path(path)\<close>: the pages of the document as new Pillow images, in
  order. A path that holds no document it can read is a failure.
\<close>

definition pages_of :: "libs \<Rightarrow> document \<Rightarrow> image list" where
  "pages_of lib doc = (case doc of Pages ps \<Rightarrow> ps | Figure fig \<Rightarrow> [render lib fig])"

definition convert_from_path :: "libs \<Rightarrow> string \<Rightarrow> state \<Rightarrow> error + ref list \<times> state" where
  "convert_from_path lib image_path st =
     (case files st image_path of
        None \<Rightarrow> Inl FileAccessError
      | Some doc \<Rightarrow>
          Inr ([length (heap st) ..< length (heap st) + length (pages_of lib doc)],
               st\<lparr>heap := heap st @ map PImage (pages_of lib doc)\<rparr>))"

definition listdir :: "string \<Rightarrow> state \<Rightarrow> error + string list" where
  "listdir d st = (case dirs st d of None \<Rightarrow> Inl FileAccessError | Some names \<Rightarrow> Inr names)"

text \<open>\<^verbatim>\<open>os.path.join(a, b)\<close> of \<^verbatim>\<open>posixpath\<close>.\<close>

definition path_join :: "string \<Rightarrow> string \<Rightarrow> string" where
  "path_join a b =
     (if b \<noteq> [] \<and> hd b = CHR ''/'' then b
      else if a = [] \<or> last a = CHR ''/'' then a @ b
      else a @ ''/'' @ b)"

text \<open>\<^verbatim>\<open>s.split(c)\<close>: the pieces between the separators, never an empty list.\<close>

fun split_on :: "char \<Rightarrow> string \<Rightarrow> string list" where
  "split_on c [] = [[]]"
| "split_on c (x # xs) =
     (if x = c then [] # split_on c xs
      else (x # hd (split_on c xs)) # tl (split_on c xs))"

text \<open>
  The name of the saved comparison, line 77:
  \<^verbatim>\<open>image_path.split("/")[-1][:-4] + "_" + metric + '.pdf'\<close>.
  The slice \<^verbatim>\<open>[:-4]\<close> drops the last four characters (all of a shorter name).
\<close>

definition figure_name :: "string \<Rightarrow> string \<Rightarrow> string" where
  "figure_name image_path metric =
     (let base = last (split_on CHR ''/'' image_path)
      in take (length base - 4) base @ ''_'' @ metric @ ''.pdf'')"

text \<open>
  \<^verbatim>\<open>plt.subplots(1, ncol)\<close> makes \<open>ncol\<close> empty axes. For a single column matplotlib
  hands back the axes object itself and not an array of axes, and \<^verbatim>\<open>axes[k]\<close> is a
  \<open>TypeError\<close>.
\<close>

definition subplots :: "nat \<Rightarrow> figure" where
  "subplots ncol = replicate ncol None"

definition axes_item :: "figure \<Rightarrow> nat \<Rightarrow> error + nat" where
  "axes_item fig k =
     (if length fig = 1 then Inl NotSubscriptable
      else if k < length fig then Inr k
      else Inl IndexError)"

definition imshow :: "figure \<Rightarrow> nat \<Rightarrow> ndarray \<Rightarrow> figure" where
  "imshow fig k a = fig[k := Some a]"

text \<open>\<^verbatim>\<open>fig.savefig(fname)\<close> writes the figure as the document at \<open>fname\<close>.\<close>

definition savefig :: "figure \<Rightarrow> string \<Rightarrow> state \<Rightarrow> error + state" where
  "savefig fig fname st =
     (if writable st fname then Inr (st\<lparr>files := (files st)(fname \<mapsto> Figure fig)\<rparr>)
      else Inl FileAccessError)"

section \<open>The error curve of one image\<close>

text \<open>\<^verbatim>\<open>errs[i] = err\<close> on the array \<^verbatim>\<open>np.zeros(len(params))\<close>.\<close>

definition np_zeros :: "nat \<Rightarrow> npfloat list" where
  "np_zeros n = replicate n (Float 0)"

definition setitem :: "npfloat list \<Rightarrow> nat \<Rightarrow> npfloat \<Rightarrow> error + npfloat list" where
  "setitem errs i err = (if i < length errs then Inr (errs[i := err]) else Inl IndexError)"

text \<open>
  The loop of lines 66 to 74. \<open>axes\<close> is the figure when \<^verbatim>\<open>output_dir\<close> is given and
  \<open>None\<close> otherwise; \<open>fn\<close> is \<^verbatim>\<open>img_manipulation_fn\<close>, \<open>None\<close> when no branch of the
  selection set it, and calling \<open>None\<close> is a \<open>TypeError\<close>.
\<close>

type_synonym manipulation = "ref \<Rightarrow> int \<Rightarrow> state \<Rightarrow> error + ref \<times> state"

definition call_fn :: "manipulation option \<Rightarrow> manipulation" where
  "call_fn fn img param st =
     (case fn of None \<Rightarrow> Inl NoneNotCallable | Some f \<Rightarrow> f img param st)"

definition show_changed :: "figure option \<Rightarrow> nat \<Rightarrow> ndarray \<Rightarrow> error + figure option" where
  "show_changed axes i changed =
     (case axes of
        None \<Rightarrow> Inr None
      | Some fig \<Rightarrow>
          (case axes_item fig (i + 1) of
             Inl e \<Rightarrow> Inl e
           | Inr k \<Rightarrow> Inr (Some (imshow fig k changed))))"

fun mse_loop :: "manipulation option \<Rightarrow> ref \<Rightarrow> ref \<Rightarrow> figure option \<Rightarrow> nat \<Rightarrow> int list \<Rightarrow>
    npfloat list \<Rightarrow> state \<Rightarrow> error + (npfloat list \<times> figure option) \<times> state" where
  "mse_loop fn img arr_img axes i [] errs st = Inr ((errs, axes), st)"
| "mse_loop fn img arr_img axes i (param # rest) errs st =
     (case call_fn fn img param st of
        Inl e \<Rightarrow> Inl e
      | Inr (arr_img_changed, st1) \<Rightarrow>
          (case get_array st1 arr_img_changed of
             Inl e \<Rightarrow> Inl e
           | Inr changed \<Rightarrow>
               (case show_changed axes i changed of
                  Inl e \<Rightarrow> Inl e
                | Inr axes1 \<Rightarrow>
                    (case get_array st1 arr_img of
                       Inl e \<Rightarrow> Inl e
                     | Inr orig \<Rightarrow>
                         (case image_err orig changed of
                            Inl e \<Rightarrow> Inl e
                          | Inr err \<Rightarrow>
                              (case setitem errs i err of
                                 Inl e \<Rightarrow> Inl e
                               | Inr errs1 \<Rightarrow>
                                   mse_loop fn img arr_img axes1 (i + 1) rest errs1 st1))))))"

text \<open>Lines 52 to 57: the figure with the reference image in its first axes.\<close>

definition open_figure :: "string option \<Rightarrow> nat \<Rightarrow> ndarray \<Rightarrow> error + figure option" where
  "open_figure output_dir nparams orig =
     (case output_dir of
        None \<Rightarrow> Inr None
      | Some d \<Rightarrow>
          (let ncol = nparams + 1; fig = subplots ncol
           in case axes_item fig 0 of
                Inl e \<Rightarrow> Inl e
              | Inr k \<Rightarrow> Inr (Some (imshow fig k orig))))"

text \<open>Lines 76 to 79.\<close>

definition save_figure :: "string option \<Rightarrow> figure option \<Rightarrow> string \<Rightarrow> string \<Rightarrow> state \<Rightarrow>
    error + state" where
  "save_figure output_dir axes image_path metric st =
     (case output_dir of
        None \<Rightarrow> Inr st
      | Some d \<Rightarrow>
          (case axes of
             None \<Rightarrow> Inr st
           | Some fig \<Rightarrow> savefig fig (path_join d (figure_name image_path metric)) st))"

definition select_fn :: "libs \<Rightarrow> string \<Rightarrow> manipulation option" where
  "select_fn lib metric =
     (if metric = ''resize_mse'' then Some (topomap_rescale lib)
      else if metric = ''blur_mse'' then Some (topomap_blur lib)
      else None)"

definition topomap_mse :: "libs \<Rightarrow> string \<Rightarrow> string \<Rightarrow> int list \<Rightarrow> string option \<Rightarrow> state \<Rightarrow>
    error + npfloat list \<times> state" where
  "topomap_mse lib image_path metric params output_dir st =
     (case convert_from_path lib image_path st of
        Inl e \<Rightarrow> Inl e
      | Inr (pages, st1) \<Rightarrow>
          (case pages of
             [] \<Rightarrow> Inl IndexError
           | img # others \<Rightarrow>
               (case np_asarray img st1 of
                  Inl e \<Rightarrow> Inl e
                | Inr (arr_img, st2) \<Rightarrow>
                    (case get_array st2 arr_img of
                       Inl e \<Rightarrow> Inl e
                     | Inr orig \<Rightarrow>
                         (case open_figure output_dir (length params) orig of
                            Inl e \<Rightarrow> Inl e
                          | Inr axes \<Rightarrow>
                              (case mse_loop (select_fn lib metric) img arr_img axes 0 params
                                      (np_zeros (length params)) st2 of
                                 Inl e \<Rightarrow> Inl e
                               | Inr ((errs, axes1), st3) \<Rightarrow>
                                   (case save_figure output_dir axes1 image_path metric st3 of
                                      Inl e \<Rightarrow> Inl e
                                    | Inr st4 \<Rightarrow>
                                        (case im_close img st4 of
                                           Inl e \<Rightarrow> Inl e
                                         | Inr st5 \<Rightarrow> Inr (errs, st5)))))))))"

section \<open>The quality of a directory of images\<close>

fun fadd :: "npfloat \<Rightarrow> npfloat \<Rightarrow> npfloat" where
  "fadd (Float a) (Float b) = Float (a + b)"
| "fadd a b = NaN"

fun fscale :: "real \<Rightarrow> npfloat \<Rightarrow> npfloat" where
  "fscale c (Float a) = Float (c * a)"
| "fscale c NaN = NaN"

definition fsum :: "npfloat list \<Rightarrow> npfloat" where
  "fsum xs = foldr fadd xs (Float 0)"

definition fmean :: "npfloat list \<Rightarrow> npfloat" where
  "fmean xs = (if xs = [] then NaN else fscale (1 / real (length xs)) (fsum xs))"

text \<open>
  \<^verbatim>\<open>np.array(group_errors)\<close>: a table of rows of one length; of no row at all it is
  the empty one-dimensional array.
\<close>

definition np_array :: "npfloat list list \<Rightarrow> error + npfloat list list" where
  "np_array rows =
     (if list_all (\<lambda>r. length r = length (hd rows)) rows then Inr rows
      else Inl InhomogeneousShape)"

text \<open>
  \<^verbatim>\<open>np.mean(table, axis=0)\<close>: the mean of every column; of the empty one-dimensional
  array it is the scalar \<open>NaN\<close>, and \<^verbatim>\<open>list\<close> of a scalar is a \<open>TypeError\<close>.
\<close>

datatype npvalue = Scalar npfloat | Vector "npfloat list"

definition np_mean_axis0 :: "npfloat list list \<Rightarrow> npvalue" where
  "np_mean_axis0 rows =
     (if rows = [] then Scalar NaN
      else Vector (map (\<lambda>j. fmean (map (\<lambda>r. r ! j) rows)) [0 ..< length (hd rows)]))"

definition py_list :: "npvalue \<Rightarrow> error + npfloat list" where
  "py_list v = (case v of Scalar x \<Rightarrow> Inl NotIterable | Vector xs \<Rightarrow> Inr xs)"

text \<open>
  \<^verbatim>\<open>sklearn.metrics.auc(x, y)\<close>: it wants two points at least and an \<open>x\<close> that only
  rises or only falls, and integrates with \<^verbatim>\<open>np.trapz(y, x)\<close>.
\<close>

definition np_arange :: "nat \<Rightarrow> int list" where
  "np_arange n = map int [0 ..< n]"

definition np_diff :: "int list \<Rightarrow> int list" where
  "np_diff x = map (\<lambda>(a, b). b - a) (zip x (tl x))"

definition np_trapz :: "npfloat list \<Rightarrow> int list \<Rightarrow> npfloat" where
  "np_trapz y x =
     fsum (map (\<lambda>(d, a, b). fscale (1 / 2) (fscale (real_of_int d) (fadd b a)))
             (zip (np_diff x) (zip y (tl y))))"

definition auc :: "int list \<Rightarrow> npfloat list \<Rightarrow> error + npfloat" where
  "auc x y =
     (if length x \<noteq> length y then Inl InconsistentLength
      else if length x < 2 then Inl AucTooFewPoints
      else if list_ex (\<lambda>d. d < 0) (np_diff x)
      then (if list_all (\<lambda>d. d \<le> 0) (np_diff x) then Inr (fscale (- 1) (np_trapz y x))
            else Inl AucNotMonotonic)
      else Inr (fscale 1 (np_trapz y x)))"

text \<open>Lines 105 to 112: the mean curve, and its area when \<^verbatim>\<open>return_auc\<close> is set.\<close>

definition quality_values :: "npfloat list list \<Rightarrow> bool \<Rightarrow> error + npfloat list" where
  "quality_values group_errors return_auc =
     (case np_array group_errors of
        Inl e \<Rightarrow> Inl e
      | Inr table \<Rightarrow>
          (case py_list (np_mean_axis0 table) of
             Inl e \<Rightarrow> Inl e
           | Inr q \<Rightarrow>
               if return_auc
               then (case auc (np_arange (length q)) q of
                       Inl e \<Rightarrow> Inl e
                     | Inr mse_auc \<Rightarrow> Inr (q @ [mse_auc]))
               else Inr q))"

text \<open>The loop of lines 99 to 104.\<close>

fun collect_errors :: "libs \<Rightarrow> string \<Rightarrow> string \<Rightarrow> int list \<Rightarrow> string option \<Rightarrow> string list \<Rightarrow>
    npfloat list list \<Rightarrow> state \<Rightarrow> error + npfloat list list \<times> state" where
  "collect_errors lib image_dir metric params output_dir [] group_errors st =
     Inr (group_errors, st)"
| "collect_errors lib image_dir metric params output_dir (image_path # rest) group_errors st =
     (case topomap_mse lib (path_join image_dir image_path) metric params output_dir st of
        Inl e \<Rightarrow> Inl e
      | Inr (errs, st1) \<Rightarrow>
          collect_errors lib image_dir metric params output_dir rest (group_errors @ [errs]) st1)"

definition compute_topomap_image_quality :: "libs \<Rightarrow> string \<Rightarrow> string \<Rightarrow> int list \<Rightarrow> bool \<Rightarrow>
    string option \<Rightarrow> state \<Rightarrow> error + npfloat list \<times> state" where
  "compute_topomap_image_quality lib image_dir metric params return_auc output_dir st =
     (case listdir image_dir st of
        Inl e \<Rightarrow> Inl e
      | Inr image_paths \<Rightarrow>
          (case collect_errors lib image_dir metric params output_dir image_paths [] st of
             Inl e \<Rightarrow> Inl e
           | Inr (group_errors, st1) \<Rightarrow>
               (case quality_values group_errors return_auc of
                  Inl e \<Rightarrow> Inl e
                | Inr q \<Rightarrow> Inr (q, st1))))"

section \<open>What the specification says the program computes\<close>

text \<open>
  The degraded arrays as functions of the image alone: the downscale to a square of
  side \<open>55 - 5 * level\<close> and back to the size of the image, and the blur of radius
  \<open>2 * level + 2\<close>.
\<close>

definition rescaled :: "libs \<Rightarrow> image \<Rightarrow> int \<Rightarrow> error + ndarray" where
  "rescaled lib im level =
     (case resize_image lib im (55 - 5 * level, 55 - 5 * level) of
        Inl e \<Rightarrow> Inl e
      | Inr small \<Rightarrow>
          (case resize_image lib small (int (width im), int (height im)) of
             Inl e \<Rightarrow> Inl e
           | Inr big \<Rightarrow> Inr (array_of big)))"

definition blurred :: "libs \<Rightarrow> image \<Rightarrow> int \<Rightarrow> ndarray" where
  "blurred lib im level = array_of (gaussian_blur lib im (2 * level + 2))"

definition degraded :: "libs \<Rightarrow> string \<Rightarrow> image \<Rightarrow> int \<Rightarrow> error + ndarray" where
  "degraded lib metric im level =
     (if metric = ''resize_mse'' then rescaled lib im level
      else if metric = ''blur_mse'' then Inr (blurred lib im level)
      else Inl NoneNotCallable)"

text \<open>The array an operator hands back, read from the heap it leaves.\<close>

definition result_array :: "error + ref \<times> state \<Rightarrow> error + ndarray" where
  "result_array res = (case res of Inl e \<Rightarrow> Inl e | Inr (r, st) \<Rightarrow> get_array st r)"

text \<open>
  The mean squared error of two arrays: the mean over all samples of the squared
  difference of the reference and the degraded sample, as numbers.
\<close>

definition squared_differences :: "ndarray \<Rightarrow> ndarray \<Rightarrow> int list" where
  "squared_differences a b = map (\<lambda>(x, y). (uint x - uint y)\<^sup>2) (zip (data a) (data b))"

definition mean_squared_error :: "ndarray \<Rightarrow> ndarray \<Rightarrow> real" where
  "mean_squared_error a b =
     real_of_int (sum_list (squared_differences a b)) / real (length (data a))"

text \<open>No sample of the two arrays differs by more than 15: no square leaves a byte.\<close>

definition small_differences :: "ndarray \<Rightarrow> ndarray \<Rightarrow> bool" where
  "small_differences a b = list_all (\<lambda>(x, y). \<bar>uint x - uint y\<bar> \<le> 15) (zip (data a) (data b))"

text \<open>The error curve of an image: one value per level, in the order of the levels.\<close>

fun curve :: "libs \<Rightarrow> string \<Rightarrow> image \<Rightarrow> int list \<Rightarrow> error + npfloat list" where
  "curve lib metric im [] = Inr []"
| "curve lib metric im (level # levels) =
     (case degraded lib metric im level of
        Inl e \<Rightarrow> Inl e
      | Inr a \<Rightarrow>
          (case image_err (array_of im) a of
             Inl e \<Rightarrow> Inl e
           | Inr v \<Rightarrow>
               (case curve lib metric im levels of
                  Inl e \<Rightarrow> Inl e
                | Inr vs \<Rightarrow> Inr (v # vs))))"

text \<open>The panels of the comparison: the reference, then the degraded image of every level.\<close>

definition panels :: "libs \<Rightarrow> string \<Rightarrow> image \<Rightarrow> int list \<Rightarrow> figure" where
  "panels lib metric im levels =
     Some (array_of im) #
     map (\<lambda>level. case degraded lib metric im level of Inl e \<Rightarrow> None | Inr a \<Rightarrow> Some a) levels"

text \<open>The first page of the document at a path, when there is one.\<close>

definition first_page :: "libs \<Rightarrow> state \<Rightarrow> string \<Rightarrow> image option" where
  "first_page lib st image_path =
     (case files st image_path of
        None \<Rightarrow> None
      | Some doc \<Rightarrow> (case pages_of lib doc of [] \<Rightarrow> None | im # others \<Rightarrow> Some im))"

text \<open>
  A later state extends an earlier one: the same files and directories, and every
  object of the earlier heap still in its place and as it was.
\<close>

definition extends :: "state \<Rightarrow> state \<Rightarrow> bool" where
  "extends st st' =
     (files st' = files st \<and> dirs st' = dirs st \<and> writable st' = writable st \<and>
      take (length (heap st)) (heap st') = heap st)"

text \<open>The panels that follow the reference.\<close>

definition shown :: "libs \<Rightarrow> string \<Rightarrow> image \<Rightarrow> int list \<Rightarrow> figure" where
  "shown lib metric im levels = tl (panels lib metric im levels)"

text \<open>
  The mean curve of a table of curves (one row per image, one column per level): the
  mean of every column. And the area under a curve by the trapezoidal rule over the
  indices \<open>0, 1, \<dots>\<close> of its values.
\<close>

definition mean_curve :: "real list list \<Rightarrow> nat \<Rightarrow> real list" where
  "mean_curve rows k =
     map (\<lambda>j. sum_list (map (\<lambda>row. row ! j) rows) / real (length rows)) [0 ..< k]"

definition trapezoid :: "real list \<Rightarrow> real" where
  "trapezoid ys = sum_list (map (\<lambda>j. (ys ! j + ys ! (j + 1)) / 2) [0 ..< length ys - 1])"

text \<open>The comparison \<^verbatim>\<open>topomap_mse\<close> writes for an entry of the image directory.\<close>

definition target :: "string \<Rightarrow> string \<Rightarrow> string \<Rightarrow> string \<Rightarrow> string" where
  "target output_dir image_dir metric name =
     path_join output_dir (figure_name (path_join image_dir name) metric)"

text \<open>
  The comparisons of a run can be saved: there is a level, every target can be written,
  and no target is an entry of the image directory that the run reads.
\<close>

definition may_save :: "state \<Rightarrow> string option \<Rightarrow> string \<Rightarrow> string \<Rightarrow> int list \<Rightarrow> string list \<Rightarrow> bool" where
  "may_save st output_dir image_dir metric params names =
     (case output_dir of
        None \<Rightarrow> True
      | Some d \<Rightarrow>
          params \<noteq> [] \<and>
          list_all (\<lambda>n. writable st (target d image_dir metric n) \<and>
                         list_all (\<lambda>n'. target d image_dir metric n \<noteq> path_join image_dir n') names)
                   names)"

text \<open>A file name without its extension: what stands before its last dot.\<close>

definition without_extension :: "string \<Rightarrow> string" where
  "without_extension name =
     (if CHR ''.'' \<in> set name then rev (tl (dropWhile (\<lambda>c. c \<noteq> CHR ''.'') (rev name)))
      else name)"

text \<open>What a call returned, and the document it left at a path.\<close>

definition returned :: "error + 'a \<times> state \<Rightarrow> error + 'a" where
  "returned res = (case res of Inl e \<Rightarrow> Inl e | Inr (x, st) \<Rightarrow> Inr x)"

definition written :: "error + 'a \<times> state \<Rightarrow> string \<Rightarrow> document option" where
  "written res fname = (case res of Inl e \<Rightarrow> None | Inr (x, st) \<Rightarrow> files st fname)"

text \<open>The files a call left.\<close>

definition left_files :: "error + 'a \<times> state \<Rightarrow> (string \<rightharpoonup> document) option" where
  "left_files res = (case res of Inl e \<Rightarrow> None | Inr (x, st) \<Rightarrow> Some (files st))"

section \<open>A small world to run the program in\<close>

text \<open>
  A two pixel RGB page whose samples are all 100, stored under two names; a resampling
  filter that adds one to the first sample of its source; and a blur that adds its radius
  to every sample.
\<close>

definition demo_lib :: libs where
  "demo_lib = \<lparr>resample = (\<lambda>im sz k. px im 0 + 1),
               gaussian = (\<lambda>im radius k. px im k + word_of_int radius),
               render = (\<lambda>fig. \<lparr>width = 1, height = 1, mode = Mode_L, px = (\<lambda>k. 0)\<rparr>)\<rparr>"

definition demo_image :: image where
  "demo_image = \<lparr>width = 2, height = 1, mode = Mode_RGB, px = (\<lambda>k. 100)\<rparr>"

definition demo_state :: state where
  "demo_state = \<lparr>heap = [],
                 files = [''maps/a.pdf'' \<mapsto> Pages [demo_image], ''maps/fig'' \<mapsto> Pages [demo_image]],
                 dirs = [''maps'' \<mapsto> [''a.pdf'', ''fig''], ''void'' \<mapsto> []],
                 writable = (\<lambda>p. True)\<rparr>"

text \<open>The same world with the page loaded as object 0.\<close>

definition demo_loaded :: state where
  "demo_loaded = demo_state\<lparr>heap := [PImage demo_image]\<rparr>"

text \<open>A directory of two documents whose names have no extension.\<close>

definition plain_state :: state where
  "plain_state = \<lparr>heap = [],
                  files = [''plain/fig'' \<mapsto> Pages [demo_image], ''plain/map'' \<mapsto> Pages [demo_image]],
                  dirs = [''plain'' \<mapsto> [''fig'', ''map'']],
                  writable = (\<lambda>p. True)\<rparr>"

text \<open>
  A second world: two grey pages of two by two pixels in a directory, and a blur that
  darkens the samples of each by amounts chosen so that the errors of the first page are
  2 and 4 and those of the second 6 and 8 at the levels 0 and 1.
\<close>

definition pair_lib :: libs where
  "pair_lib = \<lparr>resample = (\<lambda>im sz k. px im 0),
               gaussian = (\<lambda>im radius k. px im k -
                  (if px im 0 = 100
                   then (if radius = 2 then (if k < 2 then 2 else 0) else 2)
                   else (if radius = 2 then (if k = 0 then 4 else if k < 3 then 2 else 0)
                         else (if k < 2 then 4 else 0)))),
               render = (\<lambda>fig. \<lparr>width = 1, height = 1, mode = Mode_L, px = (\<lambda>k. 0)\<rparr>)\<rparr>"

definition pair_image_a :: image where
  "pair_image_a = \<lparr>width = 2, height = 2, mode = Mode_L, px = (\<lambda>k. 100)\<rparr>"

definition pair_image_b :: image where
  "pair_image_b = \<lparr>width = 2, height = 2, mode = Mode_L, px = (\<lambda>k. 200)\<rparr>"

definition pair_state :: state where
  "pair_state = \<lparr>heap = [],
                 files = [''pair/a.pdf'' \<mapsto> Pages [pair_image_a],
                          ''pair/b.pdf'' \<mapsto> Pages [pair_image_b]],
                 dirs = [''pair'' \<mapsto> [''a.pdf'', ''b.pdf'']],
                 writable = (\<lambda>p. False)\<rparr>"

section \<open>The heap only grows\<close>

lemma extends_refl: "extends st st"
  by (simp add: extends_def)

lemma extends_length: "extends st st' \<Longrightarrow> length (heap st) \<le> length (heap st')"
proof -
  assume "extends st st'"
  then have "take (length (heap st)) (heap st') = heap st" by (simp add: extends_def)
  then have "length (take (length (heap st)) (heap st')) = length (heap st)" by simp
  then show ?thesis by simp
qed

lemma extends_nth: "extends st st' \<Longrightarrow> r < length (heap st) \<Longrightarrow> heap st' ! r = heap st ! r"
proof -
  assume e: "extends st st'" and r: "r < length (heap st)"
  from e have t: "take (length (heap st)) (heap st') = heap st" by (simp add: extends_def)
  have "take (length (heap st)) (heap st') ! r = heap st' ! r" using r by simp
  then show ?thesis using t by simp
qed

lemma extends_trans: "extends a b \<Longrightarrow> extends b c \<Longrightarrow> extends a c"
proof -
  assume ab: "extends a b" and bc: "extends b c"
  have l: "length (heap a) \<le> length (heap b)" using ab by (rule extends_length)
  have tb: "take (length (heap b)) (heap c) = heap b" using bc by (simp add: extends_def)
  have ta: "take (length (heap a)) (heap b) = heap a" using ab by (simp add: extends_def)
  have "take (length (heap a)) (heap c) = take (length (heap a)) (take (length (heap b)) (heap c))"
    using l by (simp add: min_def)
  also have "\<dots> = heap a" by (simp only: tb ta)
  finally have "take (length (heap a)) (heap c) = heap a" .
  moreover have "files c = files a" "dirs c = dirs a" "writable c = writable a"
    using ab bc by (simp_all add: extends_def)
  ultimately show ?thesis by (simp add: extends_def)
qed

lemma extends_append: "extends st (st\<lparr>heap := heap st @ obs\<rparr>)"
  by (simp add: extends_def)

lemma get_image_extends:
  assumes "extends st st'" and "get_image st r = Inr im"
  shows "get_image st' r = Inr im"
proof -
  have r: "r < length (heap st)" using assms(2) by (simp add: get_image_def split: if_splits)
  have "r < length (heap st')" using r extends_length [OF assms(1)] by simp
  moreover have "heap st' ! r = heap st ! r" using extends_nth [OF assms(1) r] .
  ultimately show ?thesis using assms(2) r by (simp add: get_image_def)
qed

lemma get_array_extends:
  assumes "extends st st'" and "get_array st r = Inr a"
  shows "get_array st' r = Inr a"
proof -
  have r: "r < length (heap st)" using assms(2) by (simp add: get_array_def split: if_splits)
  have "r < length (heap st')" using r extends_length [OF assms(1)] by simp
  moreover have "heap st' ! r = heap st ! r" using extends_nth [OF assms(1) r] .
  ultimately show ?thesis using assms(2) r by (simp add: get_array_def)
qed

section \<open>The two operators\<close>

lemma topomap_rescale_eq:
  assumes "get_image st img = Inr im"
  shows "topomap_rescale lib img level st =
     (case resize_image lib im (55 - 5 * level, 55 - 5 * level) of
        Inl e \<Rightarrow> Inl e
      | Inr small \<Rightarrow>
          (case resize_image lib small (int (width im), int (height im)) of
             Inl e \<Rightarrow> Inl e
           | Inr big \<Rightarrow> Inr (length (heap st) + 2,
               st\<lparr>heap := heap st @ [PImage small, PImage big, NDArray (array_of big)]\<rparr>)))"
proof (cases "resize_image lib im (55 - 5 * level, 55 - 5 * level)")
  case (Inl e)
  then have "im_resize lib img (55 - level * 5, 55 - level * 5) st = Inl e"
    using assms by (simp add: im_resize_def mult.commute)
  then show ?thesis using Inl by (simp add: topomap_rescale_def)
next
  case (Inr small)
  let ?st1 = "st\<lparr>heap := heap st @ [PImage small]\<rparr>"
  have r1: "im_resize lib img (55 - level * 5, 55 - level * 5) st = Inr (length (heap st), ?st1)"
    using assms Inr by (simp add: im_resize_def mult.commute alloc_def)
  have g1: "get_image ?st1 img = Inr im"
    using assms extends_append get_image_extends by blast
  have s1: "im_size img ?st1 = Inr (int (width im), int (height im))"
    using g1 by (simp add: im_size_def)
  have g2: "get_image ?st1 (length (heap st)) = Inr small"
    by (simp add: get_image_def)
  show ?thesis
  proof (cases "resize_image lib small (int (width im), int (height im))")
    case (Inl e)
    then have "im_resize lib (length (heap st)) (int (width im), int (height im)) ?st1 = Inl e"
      using g2 by (simp add: im_resize_def)
    then show ?thesis using r1 s1 Inr Inl by (simp add: topomap_rescale_def)
  next
    case big: (Inr big)
    let ?st2 = "st\<lparr>heap := heap st @ [PImage small, PImage big]\<rparr>"
    have r2: "im_resize lib (length (heap st)) (int (width im), int (height im)) ?st1
               = Inr (Suc (length (heap st)), ?st2)"
      using g2 big by (simp add: im_resize_def alloc_def)
    have g3: "get_image ?st2 (Suc (length (heap st))) = Inr big"
      by (simp add: get_image_def nth_append)
    have r3: "np_asarray (Suc (length (heap st))) ?st2 = Inr (length (heap st) + 2,
               st\<lparr>heap := heap st @ [PImage small, PImage big, NDArray (array_of big)]\<rparr>)"
      using g3 by (simp add: np_asarray_def alloc_def)
    show ?thesis using r1 s1 r2 r3 Inr big by (simp add: topomap_rescale_def)
  qed
qed

lemma topomap_blur_eq:
  assumes "get_image st img = Inr im"
  shows "topomap_blur lib img level st =
     Inr (length (heap st) + 1,
          st\<lparr>heap := heap st @ [PImage (gaussian_blur lib im (2 * level + 2)),
                                 NDArray (array_of (gaussian_blur lib im (2 * level + 2)))]\<rparr>)"
proof -
  let ?b = "gaussian_blur lib im (2 * level + 2)"
  let ?st1 = "st\<lparr>heap := heap st @ [PImage ?b]\<rparr>"
  have r1: "im_filter_gaussian lib img (level * 2 + 2) st = Inr (length (heap st), ?st1)"
    using assms by (simp add: im_filter_gaussian_def alloc_def mult.commute)
  have "get_image ?st1 (length (heap st)) = Inr ?b"
    by (simp add: get_image_def)
  then have r2: "np_asarray (length (heap st)) ?st1 = Inr (length (heap st) + 1,
                  st\<lparr>heap := heap st @ [PImage ?b, NDArray (array_of ?b)]\<rparr>)"
    by (simp add: np_asarray_def alloc_def)
  show ?thesis using r1 r2 by (simp add: topomap_blur_def)
qed

lemma resize_image_small:
  assumes "0 < width im" "0 < height im" "level \<le> 10"
  shows "\<exists>small. resize_image lib im (55 - 5 * level, 55 - 5 * level) = Inr small
           \<and> mode small = mode im"
  using assms by (simp add: resize_image_def)

lemma resize_image_back:
  assumes "0 < width im" "0 < height im"
  shows "\<exists>big. resize_image lib small (int (width im), int (height im)) = Inr big
           \<and> width big = width im \<and> height big = height im \<and> mode big = mode small"
  using assms by (auto simp add: resize_image_def)

lemma resize_image_size:
  assumes "resize_image lib small (int w, int h) = Inr big"
  shows "width big = w \<and> height big = h \<and> mode big = mode small"
  using assms by (auto simp add: resize_image_def split: if_splits)

lemma resize_image_mode:
  assumes "resize_image lib im sz = Inr small"
  shows "mode small = mode im"
  using assms by (auto simp add: resize_image_def split: if_splits)

lemma shape_array_of:
  "width a = width b \<Longrightarrow> height a = height b \<Longrightarrow> mode a = mode b \<Longrightarrow>
   shape (array_of a) = shape (array_of b) \<and> length (data (array_of a)) = length (data (array_of b))"
  by (simp add: array_of_def)

lemma rescaled_shape:
  assumes "rescaled lib im level = Inr a"
  shows "shape a = shape (array_of im) \<and> length (data a) = length (data (array_of im))"
proof -
  from assms obtain small big where
    s: "resize_image lib im (55 - 5 * level, 55 - 5 * level) = Inr small" and
    b: "resize_image lib small (int (width im), int (height im)) = Inr big" and
    a: "a = array_of big"
    by (auto simp: rescaled_def split: sum.splits)
  have "mode small = mode im" using s by (rule resize_image_mode)
  then have "width big = width im \<and> height big = height im \<and> mode big = mode im"
    using resize_image_size [OF b] by simp
  then show ?thesis using a shape_array_of by blast
qed

lemma blurred_shape:
  "shape (blurred lib im level) = shape (array_of im) \<and>
   length (data (blurred lib im level)) = length (data (array_of im))"
  by (simp add: blurred_def gaussian_blur_def array_of_def)

lemma degraded_shape:
  assumes "degraded lib metric im level = Inr a"
  shows "shape a = shape (array_of im) \<and> length (data a) = length (data (array_of im))"
  using assms rescaled_shape [of lib im level a] blurred_shape [of lib im level]
  by (auto simp: degraded_def split: if_splits)

lemma rescaled_ok:
  assumes "0 < width im" "0 < height im" "level \<le> 10"
  shows "\<exists>a. rescaled lib im level = Inr a"
proof -
  obtain small where s: "resize_image lib im (55 - 5 * level, 55 - 5 * level) = Inr small"
    using resize_image_small [OF assms] by blast
  obtain big where "resize_image lib small (int (width im), int (height im)) = Inr big"
    using resize_image_back [OF assms(1,2)] by blast
  then show ?thesis using s by (simp add: rescaled_def)
qed

lemma rescaled_fails:
  assumes "0 < width im" "0 < height im" "11 \<le> level"
  shows "rescaled lib im level = Inl ResizeValueError"
  using assms by (simp add: rescaled_def resize_image_def)

lemma result_array_rescale:
  assumes "get_image st img = Inr im"
  shows "result_array (topomap_rescale lib img level st) = rescaled lib im level"
  by (simp add: topomap_rescale_eq [OF assms] rescaled_def result_array_def get_array_def nth_append
      split: sum.splits)

lemma result_array_blur:
  assumes "get_image st img = Inr im"
  shows "result_array (topomap_blur lib img level st) = Inr (blurred lib im level)"
  by (simp add: topomap_blur_eq [OF assms] blurred_def result_array_def get_array_def nth_append)

section \<open>The loop over the levels\<close>

lemma take_Suc_update: "i < length xs \<Longrightarrow> take (Suc i) (xs[i := v]) = take i xs @ [v]"
  by (simp add: take_Suc_conv_app_nth)

lemma call_select:
  assumes g: "get_image st img = Inr im" and d: "degraded lib metric im p = Inr a"
  shows "\<exists>r st1. call_fn (select_fn lib metric) img p st = Inr (r, st1) \<and>
                  get_array st1 r = Inr a \<and> extends st st1"
proof (cases "metric = ''resize_mse''")
  case True
  then have ra: "rescaled lib im p = Inr a" using d by (simp add: degraded_def)
  then obtain small big where
    s: "resize_image lib im (55 - 5 * p, 55 - 5 * p) = Inr small" and
    b: "resize_image lib small (int (width im), int (height im)) = Inr big" and
    a: "a = array_of big"
    by (auto simp: rescaled_def split: sum.splits)
  let ?st1 = "st\<lparr>heap := heap st @ [PImage small, PImage big, NDArray (array_of big)]\<rparr>"
  have "call_fn (select_fn lib metric) img p st = Inr (length (heap st) + 2, ?st1)"
    using True s b by (simp add: call_fn_def select_fn_def topomap_rescale_eq [OF g])
  moreover have "get_array ?st1 (length (heap st) + 2) = Inr a"
    using a by (simp add: get_array_def nth_append)
  moreover have "extends st ?st1" by (rule extends_append)
  ultimately show ?thesis by blast
next
  case False
  then have m: "metric = ''blur_mse''" and a: "a = blurred lib im p"
    using d by (auto simp: degraded_def split: if_splits)
  let ?b = "gaussian_blur lib im (2 * p + 2)"
  let ?st1 = "st\<lparr>heap := heap st @ [PImage ?b, NDArray (array_of ?b)]\<rparr>"
  have "call_fn (select_fn lib metric) img p st = Inr (length (heap st) + 1, ?st1)"
    using m by (simp add: call_fn_def select_fn_def topomap_blur_eq [OF g])
  moreover have "get_array ?st1 (length (heap st) + 1) = Inr a"
    using a by (simp add: get_array_def nth_append blurred_def)
  moreover have "extends st ?st1" by (rule extends_append)
  ultimately show ?thesis by blast
qed

lemma shown_Nil: "shown lib metric im [] = []"
  by (simp add: shown_def panels_def)

lemma shown_Cons: "degraded lib metric im p = Inr a \<Longrightarrow>
   shown lib metric im (p # ps) = Some a # shown lib metric im ps"
  by (simp add: shown_def panels_def)

lemma mse_loop_ok:
  assumes "get_image st img = Inr im" and "get_array st arr_img = Inr (array_of im)"
    and "curve lib metric im params = Inr vs"
    and "i + length params \<le> length errs"
    and "case axes of None \<Rightarrow> True | Some fig \<Rightarrow> i + length params < length fig"
  shows "\<exists>st'. mse_loop (select_fn lib metric) img arr_img axes i params errs st =
           Inr ((take i errs @ vs @ drop (i + length params) errs,
                 map_option (\<lambda>fig. take (Suc i) fig @ shown lib metric im params
                                      @ drop (Suc i + length params) fig) axes), st')
           \<and> extends st st'"
  using assms
proof (induction params arbitrary: i errs axes st vs)
  case Nil
  have "map_option (\<lambda>fig. take (Suc i) fig @ drop (Suc i) fig) axes = axes"
    by (cases axes) simp_all
  then show ?case using Nil by (simp add: extends_refl shown_Nil)
next
  case (Cons p ps)
  from Cons.prems(3) obtain a v vs' where
    d: "degraded lib metric im p = Inr a" and
    v: "image_err (array_of im) a = Inr v" and
    c: "curve lib metric im ps = Inr vs'" and
    vs: "vs = v # vs'"
    by (auto split: sum.splits)
  obtain r st1 where
    call: "call_fn (select_fn lib metric) img p st = Inr (r, st1)" and
    ga: "get_array st1 r = Inr a" and
    ext: "extends st st1"
    using call_select [OF Cons.prems(1) d] by blast
  have gi1: "get_image st1 img = Inr im" using ext Cons.prems(1) by (rule get_image_extends)
  have go1: "get_array st1 arr_img = Inr (array_of im)" using ext Cons.prems(2) by (rule get_array_extends)
  let ?axes1 = "map_option (\<lambda>fig. fig[Suc i := Some a]) axes"
  have sh: "show_changed axes i a = Inr ?axes1"
  proof (cases axes)
    case None
    then show ?thesis by (simp add: show_changed_def)
  next
    case (Some fig)
    then have "Suc i < length fig" "length fig \<noteq> 1" using Cons.prems(5) by simp_all
    then show ?thesis using Some by (simp add: show_changed_def axes_item_def imshow_def)
  qed
  have il: "i < length errs" using Cons.prems(4) by simp
  then have si: "setitem errs i v = Inr (errs[i := v])" by (simp add: setitem_def)
  have p4: "Suc i + length ps \<le> length (errs[i := v])" using Cons.prems(4) by simp
  have p5: "case ?axes1 of None \<Rightarrow> True | Some fig \<Rightarrow> Suc i + length ps < length fig"
    using Cons.prems(5) by (cases axes) simp_all
  obtain st' where
    l: "mse_loop (select_fn lib metric) img arr_img ?axes1 (Suc i) ps (errs[i := v]) st1 =
           Inr ((take (Suc i) (errs[i := v]) @ vs' @ drop (Suc i + length ps) (errs[i := v]),
                 map_option (\<lambda>fig. take (Suc (Suc i)) fig @ shown lib metric im ps
                                      @ drop (Suc (Suc i) + length ps) fig) ?axes1), st')" and
    e': "extends st1 st'"
    using Cons.IH [OF gi1 go1 c p4 p5] by blast
  have e1: "take (Suc i) (errs[i := v]) @ vs' @ drop (Suc i + length ps) (errs[i := v])
            = take i errs @ vs @ drop (i + length (p # ps)) errs"
    using il by (simp add: take_Suc_update vs)
  have e2: "map_option (\<lambda>fig. take (Suc (Suc i)) fig @ shown lib metric im ps
                                      @ drop (Suc (Suc i) + length ps) fig) ?axes1
            = map_option (\<lambda>fig. take (Suc i) fig @ shown lib metric im (p # ps)
                                      @ drop (Suc i + length (p # ps)) fig) axes"
  proof (cases axes)
    case None
    then show ?thesis by simp
  next
    case (Some fig)
    then have "Suc i < length fig" using Cons.prems(5) by simp
    then show ?thesis using Some by (simp add: take_Suc_update shown_Cons [OF d])
  qed
  have "mse_loop (select_fn lib metric) img arr_img axes i (p # ps) errs st =
        mse_loop (select_fn lib metric) img arr_img ?axes1 (Suc i) ps (errs[i := v]) st1"
    using call ga sh go1 v si by simp
  then show ?case using l e1 e2 extends_trans [OF ext e'] by simp
qed

lemma panels_shown: "panels lib metric im levels = Some (array_of im) # shown lib metric im levels"
  by (simp add: shown_def panels_def)

lemma convert_first_page:
  assumes "first_page lib st image_path = Some im"
  shows "\<exists>others obs. convert_from_path lib image_path st =
           Inr (length (heap st) # others, st\<lparr>heap := heap st @ PImage im # obs\<rparr>)"
proof -
  from assms obtain doc rest where f: "files st image_path = Some doc"
    and p: "pages_of lib doc = im # rest"
    by (auto simp: first_page_def split: option.splits list.splits)
  let ?n = "length (heap st)"
  have u: "[?n ..< ?n + length (pages_of lib doc)] = ?n # [Suc ?n ..< ?n + length (pages_of lib doc)]"
    by (rule upt_conv_Cons) (simp add: p)
  have "convert_from_path lib image_path st =
          Inr ([?n ..< ?n + length (pages_of lib doc)],
               st\<lparr>heap := heap st @ map PImage (pages_of lib doc)\<rparr>)"
    using f by (simp add: convert_from_path_def)
  also have "\<dots> = Inr (?n # [Suc ?n ..< ?n + length (pages_of lib doc)],
               st\<lparr>heap := heap st @ PImage im # map PImage rest\<rparr>)"
    by (simp only: u) (simp add: p)
  finally show ?thesis by blast
qed

lemma topomap_mse_ok:
  assumes fp: "first_page lib st image_path = Some im"
    and c: "curve lib metric im params = Inr vs"
    and out: "case output_dir of None \<Rightarrow> True
              | Some d \<Rightarrow> params \<noteq> [] \<and> writable st (path_join d (figure_name image_path metric))"
  shows "\<exists>st'. topomap_mse lib image_path metric params output_dir st = Inr (vs, st')
      \<and> files st' = (case output_dir of None \<Rightarrow> files st
                      | Some d \<Rightarrow> (files st)(path_join d (figure_name image_path metric)
                                       \<mapsto> Figure (panels lib metric im params)))
      \<and> dirs st' = dirs st \<and> writable st' = writable st
      \<and> take (length (heap st)) (heap st') = heap st"
proof -
  let ?n = "length (heap st)"
  obtain others obs where conv: "convert_from_path lib image_path st =
      Inr (?n # others, st\<lparr>heap := heap st @ PImage im # obs\<rparr>)"
    using convert_first_page [OF fp] by blast
  let ?st1 = "st\<lparr>heap := heap st @ PImage im # obs\<rparr>"
  let ?orig = "array_of im"
  let ?st2 = "st\<lparr>heap := heap st @ PImage im # obs @ [NDArray ?orig]\<rparr>"
  let ?arr = "Suc (?n + length obs)"
  have gi1: "get_image ?st1 ?n = Inr im" by (simp add: get_image_def)
  have asarr: "np_asarray ?n ?st1 = Inr (?arr, ?st2)"
    using gi1 by (simp add: np_asarray_def alloc_def)
  have ga2: "get_array ?st2 ?arr = Inr ?orig"
    by (simp add: get_array_def nth_append nth_Cons')
  have gi2: "get_image ?st2 ?n = Inr im" by (simp add: get_image_def)
  let ?axes = "case output_dir of None \<Rightarrow> None
               | Some d \<Rightarrow> Some ((replicate (Suc (length params)) None)[0 := Some ?orig])"
  have fig: "open_figure output_dir (length params) ?orig = Inr ?axes"
    using out by (cases output_dir) (simp_all add: open_figure_def subplots_def axes_item_def imshow_def)
  have pre: "case ?axes of None \<Rightarrow> True | Some fig \<Rightarrow> 0 + length params < length fig"
    by (cases output_dir) simp_all
  have zl: "0 + length params \<le> length (np_zeros (length params))" by (simp add: np_zeros_def)
  obtain st3 where
    loop: "mse_loop (select_fn lib metric) ?n ?arr ?axes 0 params (np_zeros (length params)) ?st2 =
           Inr ((take 0 (np_zeros (length params)) @ vs @ drop (0 + length params) (np_zeros (length params)),
                 map_option (\<lambda>fig. take (Suc 0) fig @ shown lib metric im params
                                      @ drop (Suc 0 + length params) fig) ?axes), st3)" and
    e3: "extends ?st2 st3"
    using mse_loop_ok [OF gi2 ga2 c zl pre] by blast
  let ?axes1 = "case output_dir of None \<Rightarrow> None | Some d \<Rightarrow> Some (panels lib metric im params)"
  have a1: "map_option (\<lambda>fig. take (Suc 0) fig @ shown lib metric im params
                                      @ drop (Suc 0 + length params) fig) ?axes = ?axes1"
    by (cases output_dir) (simp_all add: panels_shown)
  have loop': "mse_loop (select_fn lib metric) ?n ?arr ?axes 0 params (np_zeros (length params)) ?st2 =
           Inr ((vs, ?axes1), st3)"
    using loop a1 by (simp add: np_zeros_def)
  let ?st4 = "case output_dir of None \<Rightarrow> st3
              | Some d \<Rightarrow> st3\<lparr>files := (files st3)(path_join d (figure_name image_path metric)
                                       \<mapsto> Figure (panels lib metric im params))\<rparr>"
  have w3: "writable st3 = writable st" "files st3 = files st" "dirs st3 = dirs st"
    using e3 by (simp_all add: extends_def)
  have sv: "save_figure output_dir ?axes1 image_path metric st3 = Inr ?st4"
    using out w3 by (cases output_dir) (simp_all add: save_figure_def savefig_def)
  have h4: "heap ?st4 = heap st3" by (cases output_dir) simp_all
  have l3: "length (heap ?st2) \<le> length (heap st3)" using e3 by (rule extends_length)
  then have n3: "?n < length (heap st3)" by simp
  let ?st5 = "?st4\<lparr>heap := (heap ?st4)[?n := Closed]\<rparr>"
  have cl: "im_close ?n ?st4 = Inr ?st5" using n3 h4 by (simp add: im_close_def)
  have res: "topomap_mse lib image_path metric params output_dir st = Inr (vs, ?st5)"
    using conv asarr ga2 fig loop' sv cl by (simp add: topomap_mse_def)
  have t3: "take (length (heap ?st2)) (heap st3) = heap ?st2" using e3 by (simp add: extends_def)
  have "take ?n (heap st3) = take ?n (take (length (heap ?st2)) (heap st3))"
    by (simp add: min_def)
  also have "\<dots> = heap st" by (simp only: t3) simp
  finally have t: "take ?n (heap st3) = heap st" .
  have f5: "files ?st5 = (case output_dir of None \<Rightarrow> files st
                      | Some d \<Rightarrow> (files st)(path_join d (figure_name image_path metric)
                                       \<mapsto> Figure (panels lib metric im params)))"
    using w3 by (cases output_dir) simp_all
  have d5: "dirs ?st5 = dirs st" "writable ?st5 = writable st"
    using w3 by (cases output_dir; simp)+
  have h5: "take ?n (heap ?st5) = heap st" using t h4 by simp
  show ?thesis using res f5 d5 h5 by blast
qed

section \<open>The error of one level\<close>

lemma uint_square_diff:
  "uint ((x - y) * (x - y) :: 8 word) = ((uint x - uint y)\<^sup>2) mod 256"
  by (simp add: uint_word_ariths power2_eq_square mod_mult_eq)

lemma uint_square_small:
  assumes "\<bar>uint x - uint y\<bar> \<le> 15"
  shows "uint ((x - y) * (x - y) :: 8 word) = (uint x - uint y)\<^sup>2"
proof -
  have "(uint x - uint y)\<^sup>2 = \<bar>uint x - uint y\<bar> * \<bar>uint x - uint y\<bar>"
    by (simp add: power2_eq_square)
  also have "\<dots> \<le> 15 * 15" using assms by (intro mult_mono) auto
  finally have "(uint x - uint y)\<^sup>2 < 256" by simp
  then show ?thesis by (simp add: uint_square_diff)
qed

lemma squares_of_differences:
  "map unat (map (\<lambda>x. x * x) (map (\<lambda>(x, y). x - y) zs))
   = map (\<lambda>(x, y). unat ((x - y) * (x - y))) (zs :: (pixel \<times> pixel) list)"
  by (induction zs) auto

lemma image_err_eq:
  assumes "shape a = shape b"
  shows "image_err a b =
     Inr (if zip (data a) (data b) = [] then NaN
          else Float (real (sum_list (map (\<lambda>(x, y). unat ((x - y) * (x - y))) (zip (data a) (data b))))
                      / real (length (zip (data a) (data b)))))"
proof -
  let ?zs = "zip (data a) (data b)"
  let ?d = "\<lparr>shape = shape a, data = map (\<lambda>(x, y). x - y) ?zs\<rparr>"
  have s: "np_subtract a b = Inr ?d" using assms by (simp add: np_subtract_def)
  have d: "data (np_square ?d) = map (\<lambda>x. x * x) (map (\<lambda>(x, y). x - y) ?zs)"
    by (simp add: np_square_def)
  have e: "(data (np_square ?d) = []) = (?zs = [])" by (simp only: d map_is_Nil_conv)
  have l: "length (data (np_square ?d)) = length ?zs" by (simp only: d length_map)
  have "np_mean (np_square ?d) =
        (if ?zs = [] then NaN
         else Float (real (sum_list (map (\<lambda>(x, y). unat ((x - y) * (x - y))) ?zs)) / real (length ?zs)))"
    unfolding np_mean_def e l by (simp only: d squares_of_differences)
  then show ?thesis using s by (simp add: image_err_def)
qed

lemma sum_unat_small:
  assumes "list_all (\<lambda>(x, y). \<bar>uint x - uint y\<bar> \<le> 15) zs"
  shows "int (sum_list (map (\<lambda>(x, y). unat ((x - y) * (x - y) :: 8 word)) zs))
         = sum_list (map (\<lambda>(x, y). (uint x - uint y)\<^sup>2) zs)"
  using assms
proof (induction zs)
  case Nil
  then show ?case by simp
next
  case (Cons z zs)
  obtain x y where z: "z = (x, y)" by (cases z)
  have "int (unat ((x - y) * (x - y))) = (uint x - uint y)\<^sup>2"
    using Cons.prems z uint_square_small [of x y] by simp
  then show ?case using Cons z by simp
qed

lemma image_err_small:
  assumes s: "shape a = shape b" and l: "length (data a) = length (data b)"
    and n: "data a \<noteq> []" and d: "small_differences a b"
  shows "image_err a b = Inr (Float (mean_squared_error a b))"
proof -
  have z: "zip (data a) (data b) \<noteq> []" using l n by (cases "data a"; cases "data b") simp_all
  have "real (sum_list (map (\<lambda>(x, y). unat ((x - y) * (x - y))) (zip (data a) (data b))))
        = real_of_int (int (sum_list (map (\<lambda>(x, y). unat ((x - y) * (x - y))) (zip (data a) (data b)))))"
    by simp
  also have "\<dots> = real_of_int (sum_list (squared_differences a b))"
    using sum_unat_small [of "zip (data a) (data b)"] d
    by (simp only: small_differences_def squared_differences_def)
  finally show ?thesis using z l by (simp add: image_err_eq [OF s] mean_squared_error_def)
qed

lemma image_err_nonneg:
  assumes "shape a = shape b" and "image_err a b = Inr (Float v)"
  shows "0 \<le> v"
  using assms(2) by (auto simp: image_err_eq [OF assms(1)] split: if_splits)

lemma array_of_nonempty: "0 < width im \<Longrightarrow> 0 < height im \<Longrightarrow> data (array_of im) \<noteq> []"
  by (cases "mode im") (simp_all add: array_of_def)

lemma curve_length: "curve lib metric im params = Inr vs \<Longrightarrow> length vs = length params"
  by (induction params arbitrary: vs) (auto split: sum.splits)

lemma curve_nth:
  "curve lib metric im params = Inr vs \<Longrightarrow> i < length params \<Longrightarrow>
   \<exists>a. degraded lib metric im (params ! i) = Inr a \<and> image_err (array_of im) a = Inr (vs ! i)"
proof (induction params arbitrary: vs i)
  case Nil
  then show ?case by simp
next
  case (Cons p ps)
  from Cons.prems(1) obtain a v vs' where
    d: "degraded lib metric im p = Inr a" and
    v: "image_err (array_of im) a = Inr v" and
    c: "curve lib metric im ps = Inr vs'" and
    vs: "vs = v # vs'"
    by (auto split: sum.splits)
  show ?case
  proof (cases i)
    case 0
    then show ?thesis using d v vs by simp
  next
    case (Suc j)
    then have "j < length ps" using Cons.prems(2) by simp
    then show ?thesis using Cons.IH [OF c] Suc vs by simp
  qed
qed

lemma curve_ok:
  assumes "\<forall>p \<in> set params. \<exists>a. degraded lib metric im p = Inr a"
  shows "\<exists>vs. curve lib metric im params = Inr vs"
  using assms
proof (induction params)
  case Nil
  then show ?case by simp
next
  case (Cons p ps)
  then obtain a where d: "degraded lib metric im p = Inr a" by auto
  have "shape (array_of im) = shape a" using degraded_shape [OF d] by simp
  then obtain v where v: "image_err (array_of im) a = Inr v" by (simp add: image_err_eq)
  obtain vs where "curve lib metric im ps = Inr vs" using Cons by auto
  then show ?case using d v by simp
qed

lemma degraded_ok:
  assumes "metric = ''resize_mse'' \<or> metric = ''blur_mse''"
    and "0 < width im" and "0 < height im"
    and "metric = ''resize_mse'' \<longrightarrow> level \<le> 10"
  shows "\<exists>a. degraded lib metric im level = Inr a"
  using assms rescaled_ok [of im level lib] by (auto simp: degraded_def)

section \<open>The error curve of one image, step by step\<close>

lemma topomap_mse_unfold:
  assumes f: "files st image_path = Some doc" and p: "pages_of lib doc = im # rest"
  shows "topomap_mse lib image_path metric params output_dir st =
     (case open_figure output_dir (length params) (array_of im) of
        Inl e \<Rightarrow> Inl e
      | Inr axes \<Rightarrow>
          (case mse_loop (select_fn lib metric) (length (heap st))
                  (Suc (length (heap st) + length rest)) axes 0 params (np_zeros (length params))
                  (st\<lparr>heap := heap st @ PImage im # map PImage rest @ [NDArray (array_of im)]\<rparr>) of
             Inl e \<Rightarrow> Inl e
           | Inr ((errs, axes1), st3) \<Rightarrow>
               (case save_figure output_dir axes1 image_path metric st3 of
                  Inl e \<Rightarrow> Inl e
                | Inr st4 \<Rightarrow>
                    (case im_close (length (heap st)) st4 of
                       Inl e \<Rightarrow> Inl e
                     | Inr st5 \<Rightarrow> Inr (errs, st5)))))"
proof -
  let ?n = "length (heap st)"
  let ?st1 = "st\<lparr>heap := heap st @ PImage im # map PImage rest\<rparr>"
  let ?st2 = "st\<lparr>heap := heap st @ PImage im # map PImage rest @ [NDArray (array_of im)]\<rparr>"
  have u: "[?n ..< ?n + length (pages_of lib doc)] = ?n # [Suc ?n ..< ?n + length (pages_of lib doc)]"
    by (rule upt_conv_Cons) (simp add: p)
  have "convert_from_path lib image_path st =
          Inr ([?n ..< ?n + length (pages_of lib doc)],
               st\<lparr>heap := heap st @ map PImage (pages_of lib doc)\<rparr>)"
    using f by (simp add: convert_from_path_def)
  also have "\<dots> = Inr (?n # [Suc ?n ..< ?n + length (pages_of lib doc)], ?st1)"
    by (simp only: u) (simp add: p)
  finally have conv: "convert_from_path lib image_path st =
     Inr (?n # [Suc ?n ..< ?n + length (pages_of lib doc)], ?st1)" .
  have gi1: "get_image ?st1 ?n = Inr im" by (simp add: get_image_def)
  have asarr: "np_asarray ?n ?st1 = Inr (Suc (?n + length rest), ?st2)"
    using gi1 by (simp add: np_asarray_def alloc_def)
  have ga2: "get_array ?st2 (Suc (?n + length rest)) = Inr (array_of im)"
    by (simp add: get_array_def nth_append nth_Cons')
  show ?thesis using conv asarr ga2 by (simp add: topomap_mse_def)
qed

lemma mse_loop_unset:
  "mse_loop None img arr_img axes i (p # ps) errs st = Inl NoneNotCallable"
  by (simp add: call_fn_def)

lemma open_figure_Cons:
  "\<exists>axes. open_figure output_dir (length (p # ps)) orig = Inr axes"
  by (cases output_dir) (simp_all add: open_figure_def subplots_def axes_item_def)

lemma select_fn_unset:
  "metric \<noteq> ''resize_mse'' \<Longrightarrow> metric \<noteq> ''blur_mse'' \<Longrightarrow> select_fn lib metric = None"
  by (simp add: select_fn_def)

lemma topomap_mse_no_levels:
  assumes f: "files st image_path = Some doc" and p: "pages_of lib doc = im # rest"
  shows "topomap_mse lib image_path metric [] None st =
     Inr ([], st\<lparr>heap := heap st @ Closed # map PImage rest @ [NDArray (array_of im)]\<rparr>)"
  by (simp add: topomap_mse_unfold [OF f p] open_figure_def np_zeros_def save_figure_def
      im_close_def)

lemma first_page_files:
  "first_page lib st image_path = Some im \<Longrightarrow>
   \<exists>doc rest. files st image_path = Some doc \<and> pages_of lib doc = im # rest"
  by (auto simp: first_page_def split: option.splits list.splits)

section \<open>The program in the small world\<close>

lemma demo_first_page: "first_page demo_lib demo_state ''maps/a.pdf'' = Some demo_image"
  by (simp add: first_page_def demo_state_def pages_of_def)

lemma demo_array: "array_of demo_image = \<lparr>shape = [1, 2, 3], data = [100, 100, 100, 100, 100, 100]\<rparr>"
  by (simp add: array_of_def demo_image_def upt_rec)

lemma demo_blurred:
  "degraded demo_lib ''blur_mse'' demo_image level =
     Inr \<lparr>shape = [1, 2, 3],
          data = [100 + word_of_int (2 * level + 2), 100 + word_of_int (2 * level + 2),
                  100 + word_of_int (2 * level + 2), 100 + word_of_int (2 * level + 2),
                  100 + word_of_int (2 * level + 2), 100 + word_of_int (2 * level + 2)]\<rparr>"
  by (simp add: degraded_def blurred_def gaussian_blur_def array_of_def demo_image_def demo_lib_def
      upt_rec)

lemma demo_loaded_image: "get_image demo_loaded 0 = Inr demo_image"
  by (simp add: demo_loaded_def get_image_def)

section \<open>The saved comparison\<close>

lemma panels_length: "length (panels lib metric im levels) = length levels + 1"
  by (simp add: panels_def)

lemma panels_first: "panels lib metric im levels ! 0 = Some (array_of im)"
  by (simp add: panels_def)

lemma panels_nth:
  "i < length levels \<Longrightarrow> degraded lib metric im (levels ! i) = Inr a \<Longrightarrow>
   panels lib metric im levels ! (i + 1) = Some a"
  by (simp add: panels_def)

lemma demo_fig_page: "first_page demo_lib demo_state ''maps/fig'' = Some demo_image"
  by (simp add: first_page_def demo_state_def pages_of_def)

lemma demo_fig_name: "path_join ''out'' (figure_name ''maps/fig'' ''blur_mse'') = ''out/_blur_mse.pdf''"
  by (simp add: path_join_def figure_name_def)

lemma demo_curve_0: "curve demo_lib ''blur_mse'' demo_image [0] = Inr [Float 4]"
  by (simp add: demo_blurred demo_array image_err_def np_subtract_def np_square_def np_mean_def)

lemma without_extension_dot:
  assumes "CHR ''.'' \<notin> set e"
  shows "without_extension (stem @ CHR ''.'' # e) = stem"
proof -
  have "\<forall>c \<in> set (rev e). c \<noteq> CHR ''.''" using assms by auto
  then have d: "dropWhile (\<lambda>c. c \<noteq> CHR ''.'') (rev e) = []"
    by (simp only: dropWhile_eq_Nil_conv)
  have "dropWhile (\<lambda>c. c \<noteq> CHR ''.'') (rev e @ CHR ''.'' # rev stem)
        = dropWhile (\<lambda>c. c \<noteq> CHR ''.'') (rev e) @ CHR ''.'' # rev stem"
    by (rule dropWhile_append3) simp
  then have "dropWhile (\<lambda>c. c \<noteq> CHR ''.'') (rev e @ CHR ''.'' # rev stem) = CHR ''.'' # rev stem"
    by (simp only: d append_Nil)
  then show ?thesis by (simp add: without_extension_def)
qed

lemma figure_name_without_extension:
  assumes "last (split_on CHR ''/'' image_path) = stem @ CHR ''.'' # e"
    and "length e = 3" and "CHR ''.'' \<notin> set e"
  shows "figure_name image_path metric
         = without_extension (last (split_on CHR ''/'' image_path)) @ ''_'' @ metric @ ''.pdf''"
  using assms by (simp add: figure_name_def without_extension_dot)

lemma blur_curve_one:
  "\<exists>v. curve lib ''blur_mse'' im [level] = Inr [v]"
proof -
  have "\<forall>p \<in> set [level]. \<exists>a. degraded lib ''blur_mse'' im p = Inr a"
    by (simp add: degraded_def)
  then obtain vs where c: "curve lib ''blur_mse'' im [level] = Inr vs"
    using curve_ok [of "[level]" lib "''blur_mse''" im] by blast
  have "length vs = length [level]" using c by (rule curve_length)
  then obtain v where "vs = [v]" by (cases vs) simp_all
  then show ?thesis using c by blast
qed

lemma fig_page: "first_page lib demo_state ''maps/fig'' = Some demo_image"
  by (simp add: first_page_def demo_state_def pages_of_def)

lemma fig_saved:
  "written (topomap_mse lib ''maps/fig'' ''blur_mse'' [0] (Some ''out'') demo_state)
       ''out/fig_blur_mse.pdf'' = None
   \<and> written (topomap_mse lib ''maps/fig'' ''blur_mse'' [0] (Some ''out'') demo_state)
       ''out/_blur_mse.pdf'' = Some (Figure (panels lib ''blur_mse'' demo_image [0]))"
proof -
  obtain v where c: "curve lib ''blur_mse'' demo_image [0] = Inr [v]"
    using blur_curve_one by blast
  have out: "case Some ''out'' of None \<Rightarrow> True
             | Some d \<Rightarrow> [0 :: int] \<noteq> [] \<and>
                 writable demo_state (path_join d (figure_name ''maps/fig'' ''blur_mse''))"
    by (simp add: demo_state_def)
  obtain st' where
    r: "topomap_mse lib ''maps/fig'' ''blur_mse'' [0] (Some ''out'') demo_state = Inr ([v], st')"
    and f: "files st' = (case Some ''out'' of None \<Rightarrow> files demo_state
                      | Some d \<Rightarrow> (files demo_state)(path_join d (figure_name ''maps/fig'' ''blur_mse'')
                                       \<mapsto> Figure (panels lib ''blur_mse'' demo_image [0])))"
    using topomap_mse_ok [OF fig_page c out] by blast
  have f': "files st' = (files demo_state)(''out/_blur_mse.pdf''
              \<mapsto> Figure (panels lib ''blur_mse'' demo_image [0]))"
    using f by (simp add: demo_fig_name)
  have a: "files st' ''out/fig_blur_mse.pdf'' = None" by (simp add: f' demo_state_def)
  have b: "files st' ''out/_blur_mse.pdf'' = Some (Figure (panels lib ''blur_mse'' demo_image [0]))"
    by (simp add: f')
  show ?thesis using a b by (simp only: r written_def sum.case prod.case)
qed

lemma no_levels_figure:
  "topomap_mse lib ''maps/a.pdf'' ''blur_mse'' [] (Some ''out'') demo_state = Inl NotSubscriptable"
proof -
  have f: "files demo_state ''maps/a.pdf'' = Some (Pages [demo_image])"
    by (simp add: demo_state_def)
  have p: "pages_of lib (Pages [demo_image]) = demo_image # []"
    by (simp add: pages_of_def)
  have o: "open_figure (Some ''out'') (length ([] :: int list)) (array_of demo_image) = Inl NotSubscriptable"
    by (simp add: open_figure_def subplots_def axes_item_def)
  show ?thesis by (simp only: topomap_mse_unfold [OF f p] o sum.case)
qed

text \<open>
  What is saved when the call goes through: one document, at the name of line 77, with the
  reference and one panel per level. For a name that ends in a dot and three further
  characters the name of line 77 is the name without its extension.
\<close>

lemma comparison_saved:
  assumes fp: "first_page lib st image_path = Some im"
    and w: "0 < width im" and h: "0 < height im"
    and m: "metric = ''resize_mse'' \<or> metric = ''blur_mse''"
    and lv: "metric = ''resize_mse'' \<longrightarrow> (\<forall>p \<in> set params. p \<le> 10)"
    and ne: "params \<noteq> []"
    and wr: "writable st (path_join d (figure_name image_path metric))"
  shows "\<exists>errs st' fig. topomap_mse lib image_path metric params (Some d) st = Inr (errs, st')
     \<and> files st' = (files st)(path_join d (figure_name image_path metric) \<mapsto> Figure fig)
     \<and> length fig = length params + 1
     \<and> fig ! 0 = Some (array_of im)
     \<and> (\<forall>i < length params. \<exists>a. degraded lib metric im (params ! i) = Inr a
                                  \<and> fig ! (i + 1) = Some a)
     \<and> (\<forall>stem e. last (split_on CHR ''/'' image_path) = stem @ CHR ''.'' # e
                     \<and> length e = 3 \<and> CHR ''.'' \<notin> set e
            \<longrightarrow> figure_name image_path metric
                = without_extension (last (split_on CHR ''/'' image_path)) @ ''_'' @ metric @ ''.pdf'')"
proof -
  have ok: "\<forall>p \<in> set params. \<exists>a. degraded lib metric im p = Inr a"
    using degraded_ok [OF m w h] lv by blast
  then obtain vs where c: "curve lib metric im params = Inr vs"
    using curve_ok by blast
  have out: "case Some d of None \<Rightarrow> True
             | Some d \<Rightarrow> params \<noteq> [] \<and> writable st (path_join d (figure_name image_path metric))"
    using ne wr by simp
  obtain st' where r: "topomap_mse lib image_path metric params (Some d) st = Inr (vs, st')"
    and f: "files st' = (case Some d of None \<Rightarrow> files st
                      | Some d \<Rightarrow> (files st)(path_join d (figure_name image_path metric)
                                       \<mapsto> Figure (panels lib metric im params)))"
    using topomap_mse_ok [OF fp c out] by blast
  have p3: "\<forall>i < length params. \<exists>a. degraded lib metric im (params ! i) = Inr a
              \<and> panels lib metric im params ! (i + 1) = Some a"
  proof (intro allI impI)
    fix i assume i: "i < length params"
    then obtain a where "degraded lib metric im (params ! i) = Inr a"
      using ok nth_mem [OF i] by blast
    then show "\<exists>a. degraded lib metric im (params ! i) = Inr a
              \<and> panels lib metric im params ! (i + 1) = Some a"
      using panels_nth [OF i] by blast
  qed
  have p4: "\<forall>stem e. last (split_on CHR ''/'' image_path) = stem @ CHR ''.'' # e
                     \<and> length e = 3 \<and> CHR ''.'' \<notin> set e
            \<longrightarrow> figure_name image_path metric
                = without_extension (last (split_on CHR ''/'' image_path)) @ ''_'' @ metric @ ''.pdf''"
    by (intro allI impI) (elim conjE, rule figure_name_without_extension)
  have f': "files st' = (files st)(path_join d (figure_name image_path metric)
                                       \<mapsto> Figure (panels lib metric im params))"
    using f by simp
  have "topomap_mse lib image_path metric params (Some d) st = Inr (vs, st')
     \<and> files st' = (files st)(path_join d (figure_name image_path metric)
                                 \<mapsto> Figure (panels lib metric im params))
     \<and> length (panels lib metric im params) = length params + 1
     \<and> panels lib metric im params ! 0 = Some (array_of im)
     \<and> (\<forall>i < length params. \<exists>a. degraded lib metric im (params ! i) = Inr a
                                  \<and> panels lib metric im params ! (i + 1) = Some a)
     \<and> (\<forall>stem e. last (split_on CHR ''/'' image_path) = stem @ CHR ''.'' # e
                     \<and> length e = 3 \<and> CHR ''.'' \<notin> set e
            \<longrightarrow> figure_name image_path metric
                = without_extension (last (split_on CHR ''/'' image_path)) @ ''_'' @ metric @ ''.pdf'')"
    by (intro conjI r f' panels_length panels_first p3 p4)
  then show ?thesis by (intro exI)
qed

lemma plain_names:
  "path_join ''plain'' ''fig'' = ''plain/fig''" "path_join ''plain'' ''map'' = ''plain/map''"
  "path_join ''out'' (figure_name ''plain/fig'' ''blur_mse'') = ''out/_blur_mse.pdf''"
  "path_join ''out'' (figure_name ''plain/map'' ''blur_mse'') = ''out/_blur_mse.pdf''"
  by (simp_all add: path_join_def figure_name_def)

lemma plain_run:
  "left_files (compute_topomap_image_quality lib ''plain'' ''blur_mse'' [0] False (Some ''out'')
                 plain_state)
   = Some ((files plain_state)(''out/_blur_mse.pdf''
             \<mapsto> Figure (panels lib ''blur_mse'' demo_image [0])))"
proof -
  let ?F = "Figure (panels lib ''blur_mse'' demo_image [0])"
  obtain v where c: "curve lib ''blur_mse'' demo_image [0] = Inr [v]"
    using blur_curve_one by blast
  have p1: "first_page lib plain_state ''plain/fig'' = Some demo_image"
    by (simp add: first_page_def plain_state_def pages_of_def)
  have o1: "case Some ''out'' of None \<Rightarrow> True
             | Some d \<Rightarrow> [0 :: int] \<noteq> [] \<and>
                 writable plain_state (path_join d (figure_name ''plain/fig'' ''blur_mse''))"
    by (simp add: plain_state_def)
  obtain st1 where
    r1: "topomap_mse lib ''plain/fig'' ''blur_mse'' [0] (Some ''out'') plain_state = Inr ([v], st1)"
    and f1: "files st1 = (case Some ''out'' of None \<Rightarrow> files plain_state
                      | Some d \<Rightarrow> (files plain_state)(path_join d (figure_name ''plain/fig'' ''blur_mse'')
                                       \<mapsto> ?F))"
    and w1: "writable st1 = writable plain_state"
    using topomap_mse_ok [OF p1 c o1] by blast
  have f1': "files st1 = (files plain_state)(''out/_blur_mse.pdf'' \<mapsto> ?F)"
    using f1 by (simp add: plain_names)
  have "files st1 ''plain/map'' = Some (Pages [demo_image])"
    by (simp add: f1' plain_state_def)
  then have p2: "first_page lib st1 ''plain/map'' = Some demo_image"
    by (simp add: first_page_def pages_of_def)
  have o2: "case Some ''out'' of None \<Rightarrow> True
             | Some d \<Rightarrow> [0 :: int] \<noteq> [] \<and>
                 writable st1 (path_join d (figure_name ''plain/map'' ''blur_mse''))"
    by (simp add: w1 plain_state_def)
  obtain st2 where
    r2: "topomap_mse lib ''plain/map'' ''blur_mse'' [0] (Some ''out'') st1 = Inr ([v], st2)"
    and f2: "files st2 = (case Some ''out'' of None \<Rightarrow> files st1
                      | Some d \<Rightarrow> (files st1)(path_join d (figure_name ''plain/map'' ''blur_mse'')
                                       \<mapsto> ?F))"
    using topomap_mse_ok [OF p2 c o2] by blast
  have f2': "files st2 = (files plain_state)(''out/_blur_mse.pdf'' \<mapsto> ?F)"
    using f2 by (simp add: plain_names f1')
  have col: "collect_errors lib ''plain'' ''blur_mse'' [0] (Some ''out'') [''fig'', ''map''] []
               plain_state = Inr ([[v], [v]], st2)"
    by (simp add: plain_names r1 r2)
  have q: "quality_values [[v], [v]] False = Inr [fmean [v, v]]"
    by (simp add: quality_values_def np_array_def py_list_def np_mean_axis0_def)
  have d: "dirs plain_state ''plain'' = Some [''fig'', ''map'']" by (simp add: plain_state_def)
  have "compute_topomap_image_quality lib ''plain'' ''blur_mse'' [0] False (Some ''out'') plain_state
        = Inr ([fmean [v, v]], st2)"
    using d col q by (simp add: compute_topomap_image_quality_def listdir_def)
  then show ?thesis by (simp add: left_files_def f2')
qed

section \<open>The mean curve and its area\<close>

lemma fsum_Float: "fsum (map Float xs) = Float (sum_list xs)"
  by (induction xs) (simp_all add: fsum_def)

lemma fmean_Float: "xs \<noteq> [] \<Longrightarrow> fmean (map Float xs) = Float (sum_list xs / real (length xs))"
  by (simp add: fmean_def fsum_Float)

lemma column_Float:
  assumes "\<forall>row \<in> set rows. length row = k" and "j < k"
  shows "map (\<lambda>r. r ! j) (map (map Float) rows) = map Float (map (\<lambda>row. row ! j) rows)"
  using assms by (induction rows) simp_all

lemma np_mean_axis0_Float:
  assumes ne: "rows \<noteq> []" and len: "\<forall>row \<in> set rows. length row = k"
  shows "np_mean_axis0 (map (map Float) rows) = Vector (map Float (mean_curve rows k))"
proof -
  have hd: "length (hd (map (map Float) rows)) = k"
    using ne len by (cases rows) simp_all
  have "fmean (map (\<lambda>r. r ! j) (map (map Float) rows))
        = Float (sum_list (map (\<lambda>row. row ! j) rows) / real (length rows))" if "j < k" for j
  proof -
    have "map (\<lambda>row. row ! j) rows \<noteq> []" using ne by simp
    then have "fmean (map Float (map (\<lambda>row. row ! j) rows))
        = Float (sum_list (map (\<lambda>row. row ! j) rows) / real (length (map (\<lambda>row. row ! j) rows)))"
      by (rule fmean_Float)
    then show ?thesis by (simp only: column_Float [OF len that] length_map)
  qed
  then have "map (\<lambda>j. fmean (map (\<lambda>r. r ! j) (map (map Float) rows))) [0 ..< k]
        = map Float (mean_curve rows k)"
    by (simp add: mean_curve_def)
  then show ?thesis using ne hd by (simp add: np_mean_axis0_def)
qed

lemma np_array_Float:
  assumes "\<forall>row \<in> set rows. length row = k"
  shows "np_array (map (map Float) rows) = Inr (map (map Float) rows)"
proof (cases rows)
  case Nil
  then show ?thesis by (simp add: np_array_def)
next
  case (Cons r rs)
  then have "list_all (\<lambda>r. length r = length (hd (map (map Float) rows))) (map (map Float) rows)"
    using assms by (simp add: list_all_iff)
  then show ?thesis by (simp add: np_array_def)
qed

lemma np_diff_arange: "np_diff (np_arange n) = replicate (n - 1) 1"
proof (rule nth_equalityI)
  show "length (np_diff (np_arange n)) = length (replicate (n - 1) (1 :: int))"
    by (simp add: np_diff_def np_arange_def)
next
  fix i assume "i < length (np_diff (np_arange n))"
  then have i: "i < n - 1" by (simp add: np_diff_def np_arange_def)
  then have "np_diff (np_arange n) ! i = 1"
    by (simp add: np_diff_def np_arange_def nth_tl)
  then show "np_diff (np_arange n) ! i = replicate (n - 1) 1 ! i" using i by simp
qed

lemma np_trapz_Float:
  "np_trapz (map Float ys) (np_arange (length ys)) = Float (trapezoid ys)"
proof -
  let ?n = "length ys"
  let ?g = "\<lambda>(d, a, b). fscale (1 / 2) (fscale (real_of_int d) (fadd b a))"
  let ?zs = "zip (replicate (?n - 1) (1 :: int)) (zip (map Float ys) (tl (map Float ys)))"
  have "map ?g ?zs = map Float (map (\<lambda>j. (ys ! j + ys ! (j + 1)) / 2) [0 ..< ?n - 1])"
  proof (rule nth_equalityI)
    show "length (map ?g ?zs) = length (map Float (map (\<lambda>j. (ys ! j + ys ! (j + 1)) / 2) [0 ..< ?n - 1]))"
      by simp
  next
    fix i assume "i < length (map ?g ?zs)"
    then have i: "i < ?n - 1" by simp
    then have "?zs ! i = (1, Float (ys ! i), Float (ys ! (i + 1)))"
      by (simp add: nth_tl)
    then have "map ?g ?zs ! i = Float ((ys ! i + ys ! (i + 1)) / 2)"
      using i by (simp add: add.commute)
    then show "map ?g ?zs ! i = map Float (map (\<lambda>j. (ys ! j + ys ! (j + 1)) / 2) [0 ..< ?n - 1]) ! i"
      using i by simp
  qed
  then show ?thesis
    by (simp only: np_trapz_def np_diff_arange fsum_Float trapezoid_def)
qed

lemma auc_Float:
  assumes "2 \<le> length ys"
  shows "auc (np_arange (length ys)) (map Float ys) = Inr (Float (trapezoid ys))"
proof -
  have l: "length (np_arange (length ys)) = length ys" by (simp add: np_arange_def)
  have e: "\<not> list_ex (\<lambda>d. d < 0) (np_diff (np_arange (length ys)))"
    by (simp add: np_diff_arange list_ex_iff)
  show ?thesis using assms l e by (simp add: auc_def np_trapz_Float)
qed

lemma quality_values_Float:
  assumes ne: "rows \<noteq> []" and len: "\<forall>row \<in> set rows. length row = k"
    and a: "return_auc \<longrightarrow> 2 \<le> k"
  shows "quality_values (map (map Float) rows) return_auc =
     Inr (map Float (mean_curve rows k)
          @ (if return_auc then [Float (trapezoid (mean_curve rows k))] else []))"
proof -
  have lk: "length (mean_curve rows k) = k" by (simp add: mean_curve_def)
  have "auc (np_arange (length (map Float (mean_curve rows k)))) (map Float (mean_curve rows k))
        = Inr (Float (trapezoid (mean_curve rows k)))" if return_auc
    using auc_Float [of "mean_curve rows k"] a that lk by simp
  then show ?thesis
    by (simp add: quality_values_def np_array_Float [OF len] np_mean_axis0_Float [OF ne len]
        py_list_def)
qed

section \<open>The loop over the images\<close>

lemma image_err_Float:
  assumes s: "shape a = shape b" and l: "length (data a) = length (data b)" and n: "data a \<noteq> []"
  shows "\<exists>x. image_err a b = Inr (Float x)"
proof -
  have "zip (data a) (data b) \<noteq> []" using l n by (cases "data a"; cases "data b") simp_all
  then show ?thesis by (simp add: image_err_eq [OF s])
qed

lemma curve_Float:
  assumes w: "0 < width im" and h: "0 < height im"
  shows "curve lib metric im params = Inr vs \<Longrightarrow> \<exists>row. vs = map Float row"
proof (induction params arbitrary: vs)
  case Nil
  then show ?case by simp
next
  case (Cons p ps)
  from Cons.prems obtain a v vs' where
    d: "degraded lib metric im p = Inr a" and
    v: "image_err (array_of im) a = Inr v" and
    c: "curve lib metric im ps = Inr vs'" and
    vs: "vs = v # vs'"
    by (auto split: sum.splits)
  have sh: "shape (array_of im) = shape a" "length (data (array_of im)) = length (data a)"
    using degraded_shape [OF d] by simp_all
  obtain x where "image_err (array_of im) a = Inr (Float x)"
    using image_err_Float [OF sh array_of_nonempty [OF w h]] by blast
  then have x: "v = Float x" using v by simp
  obtain row where "vs' = map Float row" using Cons.IH [OF c] by blast
  then have "vs = map Float (x # row)" using vs x by simp
  then show ?case by blast
qed

lemma list_all2_choose:
  "\<forall>x \<in> set xs. \<exists>y. P x y \<Longrightarrow> \<exists>ys. list_all2 P xs ys"
proof (induction xs)
  case Nil
  then show ?case by simp
next
  case (Cons x xs)
  then obtain y ys where "P x y" "list_all2 P xs ys" by auto
  then have "list_all2 P (x # xs) (y # ys)" by simp
  then show ?case by blast
qed

lemma first_page_files_eq:
  "files st' p = files st p \<Longrightarrow> first_page lib st' p = first_page lib st p"
  by (simp add: first_page_def)

lemma may_save_one:
  assumes "may_save st output_dir image_dir metric params names" and "n \<in> set names"
  shows "case output_dir of None \<Rightarrow> True
         | Some d \<Rightarrow> params \<noteq> [] \<and>
             writable st (path_join d (figure_name (path_join image_dir n) metric))"
  using assms by (cases output_dir) (auto simp: may_save_def target_def list_all_iff)

lemma may_save_rest:
  assumes "may_save st output_dir image_dir metric params (n # ns)"
    and "writable st' = writable st"
  shows "may_save st' output_dir image_dir metric params ns"
  using assms by (cases output_dir) (auto simp: may_save_def list_all_iff)

lemma may_save_keeps:
  assumes "may_save st output_dir image_dir metric params names"
    and "n \<in> set names" and "n' \<in> set names"
    and "files st' = (case output_dir of None \<Rightarrow> files st
                      | Some d \<Rightarrow> (files st)(path_join d (figure_name (path_join image_dir n) metric)
                                       \<mapsto> doc))"
  shows "files st' (path_join image_dir n') = files st (path_join image_dir n')"
proof (cases output_dir)
  case None
  then show ?thesis using assms(4) by simp
next
  case (Some d)
  have "target d image_dir metric n \<noteq> path_join image_dir n'"
    using assms(1,2,3) Some by (simp add: may_save_def list_all_iff)
  then have "path_join image_dir n' \<noteq> path_join d (figure_name (path_join image_dir n) metric)"
    by (simp add: target_def)
  then show ?thesis using assms(4) Some by simp
qed

lemma collect_errors_ok:
  assumes "list_all2 (\<lambda>n vs. \<exists>im. first_page lib st (path_join image_dir n) = Some im
                              \<and> curve lib metric im params = Inr vs) names rows"
    and "may_save st output_dir image_dir metric params names"
  shows "\<exists>st'. collect_errors lib image_dir metric params output_dir names acc st
                = Inr (acc @ rows, st')"
  using assms
proof (induction names arbitrary: rows acc st)
  case Nil
  then show ?case by simp
next
  case (Cons n ns)
  from Cons.prems(1) obtain r rs im where rows: "rows = r # rs"
    and fp: "first_page lib st (path_join image_dir n) = Some im"
    and c: "curve lib metric im params = Inr r"
    and rest: "list_all2 (\<lambda>n vs. \<exists>im. first_page lib st (path_join image_dir n) = Some im
                              \<and> curve lib metric im params = Inr vs) ns rs"
    by (auto simp: list_all2_Cons1)
  have out: "case output_dir of None \<Rightarrow> True
         | Some d \<Rightarrow> params \<noteq> [] \<and>
             writable st (path_join d (figure_name (path_join image_dir n) metric))"
    using may_save_one [OF Cons.prems(2)] by simp
  obtain st1 where
    r1: "topomap_mse lib (path_join image_dir n) metric params output_dir st = Inr (r, st1)"
    and f1: "files st1 = (case output_dir of None \<Rightarrow> files st
                      | Some d \<Rightarrow> (files st)(path_join d (figure_name (path_join image_dir n) metric)
                                       \<mapsto> Figure (panels lib metric im params)))"
    and w1: "writable st1 = writable st"
    using topomap_mse_ok [OF fp c out] by blast
  have keep: "first_page lib st1 (path_join image_dir n') = first_page lib st (path_join image_dir n')"
    if "n' \<in> set ns" for n'
  proof -
    have "n \<in> set (n # ns)" "n' \<in> set (n # ns)" using that by simp_all
    then have "files st1 (path_join image_dir n') = files st (path_join image_dir n')"
      using may_save_keeps [OF Cons.prems(2) _ _ f1] by blast
    then show ?thesis by (rule first_page_files_eq)
  qed
  have rest1: "list_all2 (\<lambda>n vs. \<exists>im. first_page lib st1 (path_join image_dir n) = Some im
                              \<and> curve lib metric im params = Inr vs) ns rs"
    using rest by (rule list.rel_mono_strong) (simp add: keep)
  have ms1: "may_save st1 output_dir image_dir metric params ns"
    using Cons.prems(2) w1 by (rule may_save_rest)
  obtain st' where "collect_errors lib image_dir metric params output_dir ns (acc @ [r]) st1
                = Inr ((acc @ [r]) @ rs, st')"
    using Cons.IH [OF rest1 ms1] by blast
  then show ?case using r1 rows by simp
qed

lemma rows_exist:
  assumes pg: "\<forall>n \<in> set names. \<exists>im. first_page lib st (path_join image_dir n) = Some im
                                   \<and> 0 < width im \<and> 0 < height im"
    and m: "metric = ''resize_mse'' \<or> metric = ''blur_mse''"
    and lv: "metric = ''resize_mse'' \<longrightarrow> (\<forall>p \<in> set params. p \<le> 10)"
  shows "\<exists>rows. list_all2 (\<lambda>n row. \<exists>im. first_page lib st (path_join image_dir n) = Some im
                        \<and> curve lib metric im params = Inr (map Float row)) names rows"
proof (rule list_all2_choose, rule ballI)
  fix n assume n: "n \<in> set names"
  obtain im where fp: "first_page lib st (path_join image_dir n) = Some im"
    and w: "0 < width im" and h: "0 < height im"
    using pg n by blast
  have "\<exists>a. degraded lib metric im p = Inr a" if "p \<in> set params" for p
  proof (rule degraded_ok [OF m w h])
    show "metric = ''resize_mse'' \<longrightarrow> p \<le> 10" using lv that by simp
  qed
  then have "\<forall>p \<in> set params. \<exists>a. degraded lib metric im p = Inr a" by simp
  then obtain vs where c: "curve lib metric im params = Inr vs"
    using curve_ok [of params lib metric im] by blast
  obtain row where "vs = map Float row" using curve_Float [OF w h c] by blast
  then show "\<exists>row. \<exists>im. first_page lib st (path_join image_dir n) = Some im
                        \<and> curve lib metric im params = Inr (map Float row)"
    using fp c by blast
qed

lemma rows_each:
  assumes rows: "list_all2 (\<lambda>n row. \<exists>im. first_page lib st (path_join image_dir n) = Some im
                        \<and> curve lib metric im params = Inr (map Float row)) names rows"
    and ms: "may_save st output_dir image_dir metric params names"
  shows "list_all2 (\<lambda>n row. returned (topomap_mse lib (path_join image_dir n) metric params
                                        output_dir st) = Inr (map Float row)) names rows"
  using rows
proof (rule list.rel_mono_strong)
  fix n row assume n: "n \<in> set names"
    and p: "\<exists>im. first_page lib st (path_join image_dir n) = Some im
                        \<and> curve lib metric im params = Inr (map Float row)"
  from p obtain im where fp: "first_page lib st (path_join image_dir n) = Some im"
    and c: "curve lib metric im params = Inr (map Float row)" by blast
  obtain st1 where
    "topomap_mse lib (path_join image_dir n) metric params output_dir st = Inr (map Float row, st1)"
    using topomap_mse_ok [OF fp c may_save_one [OF ms n]] by blast
  then show "returned (topomap_mse lib (path_join image_dir n) metric params output_dir st)
             = Inr (map Float row)"
    by (simp add: returned_def)
qed

lemma rows_length:
  assumes rows: "list_all2 (\<lambda>n row. \<exists>im. first_page lib st (path_join image_dir n) = Some im
                        \<and> curve lib metric im params = Inr (map Float row)) names rows"
  shows "\<forall>row \<in> set rows. length row = length params"
proof
  fix row assume "row \<in> set rows"
  then obtain i where i: "i < length rows" and r: "rows ! i = row"
    by (auto simp: in_set_conv_nth)
  have "\<exists>im. first_page lib st (path_join image_dir (names ! i)) = Some im
                        \<and> curve lib metric im params = Inr (map Float (rows ! i))"
    using rows i by (rule list_all2_nthD2)
  then obtain im where "curve lib metric im params = Inr (map Float row)" using r by blast
  then have "length (map Float row) = length params" by (rule curve_length)
  then show "length row = length params" by simp
qed

lemma demo_curve_01: "curve demo_lib ''blur_mse'' demo_image [0, 1] = Inr [Float 4, Float 16]"
  by (simp add: demo_blurred demo_array image_err_def np_subtract_def np_square_def np_mean_def)

lemma demo_paths: "path_join ''maps'' ''a.pdf'' = ''maps/a.pdf''" "path_join ''maps'' ''fig'' = ''maps/fig''"
  by (simp_all add: path_join_def)

lemma demo_may_save:
  "may_save demo_state (Some ''out'') ''maps'' ''blur_mse'' [0, 1] [''a.pdf'', ''fig'']"
  by (simp add: may_save_def target_def path_join_def figure_name_def demo_state_def)

lemma demo_returned:
  assumes "first_page demo_lib demo_state p = Some demo_image"
    and "returned (topomap_mse demo_lib p ''blur_mse'' [0, 1] (Some ''out'') demo_state)
           = Inr (map Float row)"
  shows "row = [4, 16]"
proof -
  have out: "case Some ''out'' of None \<Rightarrow> True
             | Some d \<Rightarrow> [0, 1 :: int] \<noteq> [] \<and>
                 writable demo_state (path_join d (figure_name p ''blur_mse''))"
    by (simp add: demo_state_def)
  obtain st' where
    "topomap_mse demo_lib p ''blur_mse'' [0, 1] (Some ''out'') demo_state = Inr ([Float 4, Float 16], st')"
    using topomap_mse_ok [OF assms(1) demo_curve_01 out] by blast
  then have "map Float row = [Float 4, Float 16]" using assms(2) by (simp add: returned_def)
  then show ?thesis by auto
qed

lemma demo_resize_11:
  "topomap_mse demo_lib ''maps/a.pdf'' ''resize_mse'' [11] None demo_state = Inl ResizeValueError"
proof -
  have f: "files demo_state ''maps/a.pdf'' = Some (Pages [demo_image])"
    by (simp add: demo_state_def)
  have p: "pages_of demo_lib (Pages [demo_image]) = demo_image # []"
    by (simp add: pages_of_def)
  have o: "open_figure None (length [11 :: int]) (array_of demo_image) = Inr None"
    by (simp add: open_figure_def)
  have g: "get_image (demo_state\<lparr>heap := heap demo_state @ PImage demo_image # map PImage []
                                     @ [NDArray (array_of demo_image)]\<rparr>) (length (heap demo_state))
           = Inr demo_image"
    by (simp add: get_image_def demo_state_def)
  have rz: "resize_image demo_lib demo_image (55 - 5 * 11, 55 - 5 * 11) = Inl ResizeValueError"
    by (simp add: resize_image_def demo_image_def)
  have c: "call_fn (select_fn demo_lib ''resize_mse'') (length (heap demo_state)) 11
          (demo_state\<lparr>heap := heap demo_state @ PImage demo_image # map PImage []
                                     @ [NDArray (array_of demo_image)]\<rparr>) = Inl ResizeValueError"
  proof -
    have s: "select_fn demo_lib ''resize_mse'' = Some (topomap_rescale demo_lib)"
      by (simp add: select_fn_def)
    show ?thesis
      by (simp only: s call_fn_def option.case topomap_rescale_eq [OF g] rz sum.case)
  qed
  have l: "mse_loop (select_fn demo_lib ''resize_mse'') (length (heap demo_state))
             (Suc (length (heap demo_state) + length ([] :: image list))) None 0 [11]
             (np_zeros (length [11 :: int]))
             (demo_state\<lparr>heap := heap demo_state @ PImage demo_image # map PImage []
                                     @ [NDArray (array_of demo_image)]\<rparr>) = Inl ResizeValueError"
    by (simp only: mse_loop.simps c sum.case)
  show ?thesis by (simp only: topomap_mse_unfold [OF f p] o l sum.case)
qed

lemma demo_curve_0_rows:
  "list_all2 (\<lambda>n vs. \<exists>im. first_page demo_lib demo_state (path_join ''maps'' n) = Some im
                              \<and> curve demo_lib ''blur_mse'' im [0] = Inr vs)
     [''a.pdf'', ''fig''] [[Float 4], [Float 4]]"
  using demo_first_page demo_fig_page demo_curve_0 by (simp add: demo_paths)

section \<open>The quality of a directory\<close>

lemma quality_of_directory:
  assumes d: "dirs st image_dir = Some names" and ne: "names \<noteq> []"
    and pg: "\<forall>n \<in> set names. \<exists>im. first_page lib st (path_join image_dir n) = Some im
                                   \<and> 0 < width im \<and> 0 < height im"
    and m: "metric = ''resize_mse'' \<or> metric = ''blur_mse''"
    and lv: "metric = ''resize_mse'' \<longrightarrow> (\<forall>p \<in> set params. p \<le> 10)"
    and a: "return_auc \<longrightarrow> 2 \<le> length params"
    and ms: "may_save st output_dir image_dir metric params names"
  shows "\<exists>rows st'.
     compute_topomap_image_quality lib image_dir metric params return_auc output_dir st
       = Inr (map Float (mean_curve rows (length params))
              @ (if return_auc then [Float (trapezoid (mean_curve rows (length params)))] else []),
              st')
     \<and> list_all2 (\<lambda>n row. returned (topomap_mse lib (path_join image_dir n) metric params
                                        output_dir st) = Inr (map Float row)) names rows"
proof -
  obtain rows where rows: "list_all2 (\<lambda>n row. \<exists>im. first_page lib st (path_join image_dir n) = Some im
                        \<and> curve lib metric im params = Inr (map Float row)) names rows"
    using rows_exist [OF pg m lv] by (rule exE)
  have "length names = length rows" using rows by (rule list_all2_lengthD)
  then have rne: "rows \<noteq> []" using ne by (cases rows) simp_all
  have len: "\<forall>row \<in> set rows. length row = length params" using rows by (rule rows_length)
  have rows': "list_all2 (\<lambda>n vs. \<exists>im. first_page lib st (path_join image_dir n) = Some im
                              \<and> curve lib metric im params = Inr vs) names (map (map Float) rows)"
    using rows by (simp add: list_all2_map2)
  obtain st' where col: "collect_errors lib image_dir metric params output_dir names [] st
                = Inr ([] @ map (map Float) rows, st')"
    using collect_errors_ok [OF rows' ms, of "[]"] by (rule exE)
  have q: "quality_values (map (map Float) rows) return_auc =
     Inr (map Float (mean_curve rows (length params))
          @ (if return_auc then [Float (trapezoid (mean_curve rows (length params)))] else []))"
    using rne len a by (rule quality_values_Float)
  have res: "compute_topomap_image_quality lib image_dir metric params return_auc output_dir st
       = Inr (map Float (mean_curve rows (length params))
              @ (if return_auc then [Float (trapezoid (mean_curve rows (length params)))] else []),
              st')"
    using d col q by (simp add: compute_topomap_image_quality_def listdir_def)
  have each: "list_all2 (\<lambda>n row. returned (topomap_mse lib (path_join image_dir n) metric params
                                        output_dir st) = Inr (map Float row)) names rows"
    using rows ms by (rule rows_each)
  show ?thesis by (intro exI conjI) (rule res, rule each)
qed

section \<open>Two images and two levels\<close>

lemma pair_array_a: "array_of pair_image_a = \<lparr>shape = [2, 2], data = [100, 100, 100, 100]\<rparr>"
  by (simp add: array_of_def pair_image_a_def upt_rec)

lemma pair_array_b: "array_of pair_image_b = \<lparr>shape = [2, 2], data = [200, 200, 200, 200]\<rparr>"
  by (simp add: array_of_def pair_image_b_def upt_rec)

lemma pair_curve_a: "curve pair_lib ''blur_mse'' pair_image_a [0, 1] = Inr [Float 2, Float 4]"
  by (simp add: pair_array_a degraded_def blurred_def gaussian_blur_def array_of_def
      pair_image_a_def pair_lib_def upt_rec image_err_def np_subtract_def np_square_def np_mean_def)

lemma pair_curve_b: "curve pair_lib ''blur_mse'' pair_image_b [0, 1] = Inr [Float 6, Float 8]"
  by (simp add: pair_array_b degraded_def blurred_def gaussian_blur_def array_of_def
      pair_image_b_def pair_lib_def upt_rec image_err_def np_subtract_def np_square_def np_mean_def)

lemma pair_page_a: "first_page pair_lib pair_state (path_join ''pair'' ''a.pdf'') = Some pair_image_a"
  by (simp add: first_page_def pair_state_def pages_of_def path_join_def)

lemma pair_page_b: "first_page pair_lib pair_state (path_join ''pair'' ''b.pdf'') = Some pair_image_b"
  by (simp add: first_page_def pair_state_def pages_of_def path_join_def)

lemma pair_returned_a:
  "returned (topomap_mse pair_lib (path_join ''pair'' ''a.pdf'') ''blur_mse'' [0, 1] None pair_state)
     = Inr [Float 2, Float 4]"
proof -
  have out: "case None :: string option of None \<Rightarrow> True
             | Some d \<Rightarrow> [0, 1 :: int] \<noteq> [] \<and>
                 writable pair_state (path_join d (figure_name (path_join ''pair'' ''a.pdf'') ''blur_mse''))"
    by simp
  obtain st' where "topomap_mse pair_lib (path_join ''pair'' ''a.pdf'') ''blur_mse'' [0, 1] None pair_state
     = Inr ([Float 2, Float 4], st')"
    using topomap_mse_ok [OF pair_page_a pair_curve_a out] by blast
  then show ?thesis by (simp add: returned_def)
qed

lemma pair_returned_b:
  "returned (topomap_mse pair_lib (path_join ''pair'' ''b.pdf'') ''blur_mse'' [0, 1] None pair_state)
     = Inr [Float 6, Float 8]"
proof -
  have out: "case None :: string option of None \<Rightarrow> True
             | Some d \<Rightarrow> [0, 1 :: int] \<noteq> [] \<and>
                 writable pair_state (path_join d (figure_name (path_join ''pair'' ''b.pdf'') ''blur_mse''))"
    by simp
  obtain st' where "topomap_mse pair_lib (path_join ''pair'' ''b.pdf'') ''blur_mse'' [0, 1] None pair_state
     = Inr ([Float 6, Float 8], st')"
    using topomap_mse_ok [OF pair_page_b pair_curve_b out] by blast
  then show ?thesis by (simp add: returned_def)
qed

lemma map_Float_eq: "map Float row = [Float x, Float y] \<Longrightarrow> row = [x, y]"
  by auto

lemma quality_of_two:
  assumes d: "dirs st image_dir = Some [a, b]"
    and pa: "first_page lib st (path_join image_dir a) = Some ima" "0 < width ima" "0 < height ima"
    and pb: "first_page lib st (path_join image_dir b) = Some imb" "0 < width imb" "0 < height imb"
    and m: "metric = ''resize_mse'' \<or> metric = ''blur_mse''"
    and ms: "may_save st output_dir image_dir metric [0, 1] [a, b]"
    and ca: "returned (topomap_mse lib (path_join image_dir a) metric [0, 1] output_dir st)
               = Inr [Float x1, Float x2]"
    and cb: "returned (topomap_mse lib (path_join image_dir b) metric [0, 1] output_dir st)
               = Inr [Float y1, Float y2]"
  shows "returned (compute_topomap_image_quality lib image_dir metric [0, 1] return_auc output_dir st)
     = Inr ([Float ((x1 + y1) / 2), Float ((x2 + y2) / 2)]
            @ (if return_auc then [Float (((x1 + y1) / 2 + (x2 + y2) / 2) / 2)] else []))"
proof -
  have ne: "[a, b] \<noteq> []" by simp
  have pg: "\<forall>n \<in> set [a, b]. \<exists>im. first_page lib st (path_join image_dir n) = Some im
                                   \<and> 0 < width im \<and> 0 < height im"
    using pa pb by simp
  have lv: "metric = ''resize_mse'' \<longrightarrow> (\<forall>p \<in> set [0, 1 :: int]. p \<le> 10)" by simp
  have au: "return_auc \<longrightarrow> 2 \<le> length [0, 1 :: int]" by simp
  obtain rows st' where
    r: "compute_topomap_image_quality lib image_dir metric [0, 1] return_auc output_dir st
       = Inr (map Float (mean_curve rows (length [0, 1 :: int]))
              @ (if return_auc then [Float (trapezoid (mean_curve rows (length [0, 1 :: int])))] else []),
              st')"
    and e: "list_all2 (\<lambda>n row. returned (topomap_mse lib (path_join image_dir n) metric [0, 1]
                                        output_dir st) = Inr (map Float row)) [a, b] rows"
    using quality_of_directory [OF d ne pg m lv au ms] by blast
  from e obtain r1 r2 where rows: "rows = [r1, r2]"
    and e1: "returned (topomap_mse lib (path_join image_dir a) metric [0, 1] output_dir st)
               = Inr (map Float r1)"
    and e2: "returned (topomap_mse lib (path_join image_dir b) metric [0, 1] output_dir st)
               = Inr (map Float r2)"
    by (auto simp: list_all2_Cons1)
  have "map Float r1 = [Float x1, Float x2]" using ca e1 by simp
  then have r1: "r1 = [x1, x2]" by (rule map_Float_eq)
  have "map Float r2 = [Float y1, Float y2]" using cb e2 by simp
  then have r2: "r2 = [y1, y2]" by (rule map_Float_eq)
  have l2: "length [0, 1 :: int] = 2" by simp
  have mc: "mean_curve [[x1, x2], [y1, y2]] 2 = [(x1 + y1) / 2, (x2 + y2) / 2]"
    by (simp add: mean_curve_def upt_rec)
  have tz: "trapezoid [(x1 + y1) / 2, (x2 + y2) / 2] = ((x1 + y1) / 2 + (x2 + y2) / 2) / 2"
    by (simp add: trapezoid_def)
  show ?thesis using r unfolding rows r1 r2 l2 mc tz by (simp add: returned_def)
qed

section \<open>The claims: the operators\<close>

text \<open>
  C3. Each operator rescales its level before it applies the transform. The array
  \<^verbatim>\<open>topomap_rescale\<close> hands back is the image resized to the square of side
  \<open>55 - 5 * level\<close> and then to the size of the image; the array \<^verbatim>\<open>topomap_blur\<close>
  hands back is the image blurred with the radius \<open>2 * level + 2\<close>.
\<close>

theorem operators_rescale_the_level:
  assumes "get_image st img = Inr im"
  shows "result_array (topomap_rescale lib img level st) =
           (case resize_image lib im (55 - 5 * level, 55 - 5 * level) of
              Inl e \<Rightarrow> Inl e
            | Inr small \<Rightarrow>
                (case resize_image lib small (int (width im), int (height im)) of
                   Inl e \<Rightarrow> Inl e
                 | Inr big \<Rightarrow> Inr (array_of big)))
     \<and> result_array (topomap_blur lib img level st) =
           Inr (array_of (gaussian_blur lib im (2 * level + 2)))"
  using result_array_rescale [OF assms, of lib level] result_array_blur [OF assms, of lib level]
  by (simp add: rescaled_def blurred_def)

theorem operators_rescale_the_level_witness:
  "get_image demo_loaded 0 = Inr demo_image
   \<and> result_array (topomap_blur demo_lib 0 3 demo_loaded) =
       Inr \<lparr>shape = [1, 2, 3], data = [108, 108, 108, 108, 108, 108]\<rparr>
   \<and> result_array (topomap_rescale demo_lib 0 3 demo_loaded) =
       Inr \<lparr>shape = [1, 2, 3], data = [102, 102, 102, 102, 102, 102]\<rparr>
   \<and> result_array (topomap_rescale demo_lib 0 11 demo_loaded) = Inl ResizeValueError"
  using operators_rescale_the_level [OF demo_loaded_image, of demo_lib 3]
    operators_rescale_the_level [OF demo_loaded_image, of demo_lib 11] demo_loaded_image
  by (simp add: resize_image_def gaussian_blur_def array_of_def demo_image_def demo_lib_def upt_rec)

text \<open>
  C7. For a level of 11 or more the target side \<open>55 - 5 * level\<close> is 0 or less and
  \<^verbatim>\<open>topomap_rescale\<close> fails; it checks nothing itself, the failure is the one of
  Pillow's resize on that target. For a target above 0 it does not fail. The image is a
  raster with a pixel at least.
\<close>

theorem topomap_rescale_fails_from_level_11:
  assumes "get_image st img = Inr im" and "0 < width im" and "0 < height im"
  shows "(11 \<le> level \<longrightarrow> 55 - 5 * level \<le> 0
            \<and> im_resize lib img (55 - 5 * level, 55 - 5 * level) st = Inl ResizeValueError
            \<and> topomap_rescale lib img level st = Inl ResizeValueError)
     \<and> (0 < 55 - 5 * level \<longrightarrow> (\<exists>arr st'. topomap_rescale lib img level st = Inr (arr, st')))"
proof -
  have a: "55 - 5 * level \<le> 0
            \<and> im_resize lib img (55 - 5 * level, 55 - 5 * level) st = Inl ResizeValueError
            \<and> topomap_rescale lib img level st = Inl ResizeValueError" if "11 \<le> level"
  proof -
    have r: "resize_image lib im (55 - 5 * level, 55 - 5 * level) = Inl ResizeValueError"
      using that assms(2,3) by (simp add: resize_image_def)
    then have "im_resize lib img (55 - 5 * level, 55 - 5 * level) st = Inl ResizeValueError"
      using assms(1) by (simp add: im_resize_def)
    moreover have "topomap_rescale lib img level st = Inl ResizeValueError"
      using r by (simp add: topomap_rescale_eq [OF assms(1)])
    ultimately show ?thesis using that by simp
  qed
  have b: "\<exists>arr st'. topomap_rescale lib img level st = Inr (arr, st')" if "0 < 55 - 5 * level"
  proof -
    have "level \<le> 10" using that by simp
    then obtain small where
      s: "resize_image lib im (55 - 5 * level, 55 - 5 * level) = Inr small"
      using resize_image_small [OF assms(2,3)] by blast
    obtain big where "resize_image lib small (int (width im), int (height im)) = Inr big"
      using resize_image_back [OF assms(2,3)] by blast
    then show ?thesis using s by (simp add: topomap_rescale_eq [OF assms(1)])
  qed
  show ?thesis using a b by blast
qed

theorem topomap_rescale_fails_from_level_11_witness:
  "get_image demo_loaded 0 = Inr demo_image \<and> 0 < width demo_image \<and> 0 < height demo_image
   \<and> topomap_rescale demo_lib 0 11 demo_loaded = Inl ResizeValueError
   \<and> (\<exists>arr st'. topomap_rescale demo_lib 0 10 demo_loaded = Inr (arr, st'))"
proof -
  have w: "0 < width demo_image" and h: "0 < height demo_image" by (simp_all add: demo_image_def)
  show ?thesis
    using topomap_rescale_fails_from_level_11 [OF demo_loaded_image w h, of 11 demo_lib]
      topomap_rescale_fails_from_level_11 [OF demo_loaded_image w h, of 10 demo_lib]
      demo_loaded_image w h
    by simp
qed

text \<open>
  C8. On an image with a pixel at least, \<^verbatim>\<open>topomap_rescale\<close> at a level up to 10 and
  \<^verbatim>\<open>topomap_blur\<close> at any level return. The image is afterwards what it was, as is
  every other object of the heap; the array handed back is a new object, and it has the
  shape of the array of the image.
\<close>

theorem operators_leave_the_image:
  assumes g: "get_image st img = Inr im" and w: "0 < width im" and h: "0 < height im"
    and l: "level \<le> 10"
  shows "(\<exists>arr st' a. topomap_rescale lib img level st = Inr (arr, st')
            \<and> get_image st' img = Inr im \<and> take (length (heap st)) (heap st') = heap st
            \<and> length (heap st) \<le> arr \<and> get_array st' arr = Inr a
            \<and> shape a = shape (array_of im) \<and> length (data a) = length (data (array_of im)))
     \<and> (\<exists>arr st' a. topomap_blur lib img radius st = Inr (arr, st')
            \<and> get_image st' img = Inr im \<and> take (length (heap st)) (heap st') = heap st
            \<and> length (heap st) \<le> arr \<and> get_array st' arr = Inr a
            \<and> shape a = shape (array_of im) \<and> length (data a) = length (data (array_of im)))"
proof -
  obtain a where ra: "rescaled lib im level = Inr a" using rescaled_ok [OF w h l] by blast
  then obtain small big where
    s: "resize_image lib im (55 - 5 * level, 55 - 5 * level) = Inr small" and
    b: "resize_image lib small (int (width im), int (height im)) = Inr big" and
    a: "a = array_of big"
    by (auto simp: rescaled_def split: sum.splits)
  let ?st1 = "st\<lparr>heap := heap st @ [PImage small, PImage big, NDArray (array_of big)]\<rparr>"
  have r1: "topomap_rescale lib img level st = Inr (length (heap st) + 2, ?st1)"
    using s b by (simp add: topomap_rescale_eq [OF g])
  have e1: "extends st ?st1" by (rule extends_append)
  have g1: "get_image ?st1 img = Inr im" using e1 g by (rule get_image_extends)
  have t1: "take (length (heap st)) (heap ?st1) = heap st" by simp
  have a1: "get_array ?st1 (length (heap st) + 2) = Inr a"
    using a by (simp add: get_array_def nth_append)
  have first: "\<exists>arr st' a. topomap_rescale lib img level st = Inr (arr, st')
            \<and> get_image st' img = Inr im \<and> take (length (heap st)) (heap st') = heap st
            \<and> length (heap st) \<le> arr \<and> get_array st' arr = Inr a
            \<and> shape a = shape (array_of im) \<and> length (data a) = length (data (array_of im))"
    using r1 g1 t1 a1 rescaled_shape [OF ra] by (intro exI [of _ "length (heap st) + 2"] exI [of _ ?st1] exI [of _ a]) simp
  let ?b = "gaussian_blur lib im (2 * radius + 2)"
  let ?st2 = "st\<lparr>heap := heap st @ [PImage ?b, NDArray (array_of ?b)]\<rparr>"
  have r2: "topomap_blur lib img radius st = Inr (length (heap st) + 1, ?st2)"
    by (rule topomap_blur_eq [OF g])
  have e2: "extends st ?st2" by (rule extends_append)
  have g2: "get_image ?st2 img = Inr im" using e2 g by (rule get_image_extends)
  have t2: "take (length (heap st)) (heap ?st2) = heap st" by simp
  have a2: "get_array ?st2 (length (heap st) + 1) = Inr (blurred lib im radius)"
    by (simp add: get_array_def nth_append blurred_def)
  have second: "\<exists>arr st' a. topomap_blur lib img radius st = Inr (arr, st')
            \<and> get_image st' img = Inr im \<and> take (length (heap st)) (heap st') = heap st
            \<and> length (heap st) \<le> arr \<and> get_array st' arr = Inr a
            \<and> shape a = shape (array_of im) \<and> length (data a) = length (data (array_of im))"
    using r2 g2 t2 a2 blurred_shape [of lib im radius]
    by (intro exI [of _ "length (heap st) + 1"] exI [of _ ?st2] exI [of _ "blurred lib im radius"]) simp
  show ?thesis using first second by blast
qed

theorem operators_leave_the_image_witness:
  "get_image demo_loaded 0 = Inr demo_image \<and> 0 < width demo_image \<and> 0 < height demo_image
   \<and> (3 :: int) \<le> 10
   \<and> (\<exists>arr st' a. topomap_rescale demo_lib 0 3 demo_loaded = Inr (arr, st')
            \<and> get_image st' 0 = Inr demo_image \<and> take 1 (heap st') = heap demo_loaded
            \<and> 1 \<le> arr \<and> get_array st' arr = Inr a \<and> shape a = [1, 2, 3])
   \<and> (\<exists>arr st' a. topomap_blur demo_lib 0 (- 1) demo_loaded = Inr (arr, st')
            \<and> get_image st' 0 = Inr demo_image \<and> take 1 (heap st') = heap demo_loaded
            \<and> 1 \<le> arr \<and> get_array st' arr = Inr a \<and> shape a = [1, 2, 3])"
proof -
  have w: "0 < width demo_image" and h: "0 < height demo_image" by (simp_all add: demo_image_def)
  have l: "(3 :: int) \<le> 10" by simp
  have n: "length (heap demo_loaded) = 1" by (simp add: demo_loaded_def)
  show ?thesis
    using operators_leave_the_image [OF demo_loaded_image w h l, of demo_lib "- 1"]
      demo_loaded_image w h
    by (simp add: n demo_array, blast)
qed

section \<open>The claims: the error curve of one image\<close>

text \<open>
  C1, as amended. For a path whose document has a first page with a pixel at least, a
  recognised metric and a list of levels (all of them 10 at most for \<open>resize_mse\<close>), and
  with no output directory or else a level at least and a comparison that can be written,
  \<^verbatim>\<open>topomap_mse\<close> returns one value per level, in the order of the levels. The value
  at a level is the mean squared error of the reference and the degraded array of that
  level whenever no sample of the two differs by more than 15.
\<close>

theorem topomap_mse_curve:
  assumes fp: "first_page lib st image_path = Some im"
    and w: "0 < width im" and h: "0 < height im"
    and m: "metric = ''resize_mse'' \<or> metric = ''blur_mse''"
    and lv: "metric = ''resize_mse'' \<longrightarrow> (\<forall>p \<in> set params. p \<le> 10)"
    and out: "case output_dir of None \<Rightarrow> True
              | Some d \<Rightarrow> params \<noteq> [] \<and> writable st (path_join d (figure_name image_path metric))"
  shows "\<exists>errs st'. topomap_mse lib image_path metric params output_dir st = Inr (errs, st')
     \<and> length errs = length params
     \<and> (\<forall>i < length params. \<exists>a. degraded lib metric im (params ! i) = Inr a
            \<and> (small_differences (array_of im) a
                 \<longrightarrow> errs ! i = Float (mean_squared_error (array_of im) a)))"
proof -
  have "\<forall>p \<in> set params. \<exists>a. degraded lib metric im p = Inr a"
    using degraded_ok [OF m w h] lv by blast
  then obtain vs where c: "curve lib metric im params = Inr vs"
    using curve_ok by blast
  obtain st' where r: "topomap_mse lib image_path metric params output_dir st = Inr (vs, st')"
    using topomap_mse_ok [OF fp c out] by blast
  have l: "length vs = length params" using c by (rule curve_length)
  have "\<exists>a. degraded lib metric im (params ! i) = Inr a
            \<and> (small_differences (array_of im) a
                 \<longrightarrow> vs ! i = Float (mean_squared_error (array_of im) a))"
    if i: "i < length params" for i
  proof -
    obtain a where d: "degraded lib metric im (params ! i) = Inr a"
      and e: "image_err (array_of im) a = Inr (vs ! i)"
      using curve_nth [OF c i] by blast
    have sh: "shape (array_of im) = shape a" "length (data (array_of im)) = length (data a)"
      using degraded_shape [OF d] by simp_all
    have ne: "data (array_of im) \<noteq> []" using w h by (rule array_of_nonempty)
    have "vs ! i = Float (mean_squared_error (array_of im) a)"
      if "small_differences (array_of im) a"
      using image_err_small [OF sh ne that] e by simp
    then show ?thesis using d by blast
  qed
  then show ?thesis using r l by blast
qed

theorem topomap_mse_curve_witness:
  "first_page demo_lib demo_state ''maps/a.pdf'' = Some demo_image
   \<and> 0 < width demo_image \<and> 0 < height demo_image
   \<and> (\<exists>st'. topomap_mse demo_lib ''maps/a.pdf'' ''blur_mse'' [0, 1] None demo_state
              = Inr ([Float 4, Float 16], st'))"
proof -
  have w: "0 < width demo_image" and h: "0 < height demo_image" by (simp_all add: demo_image_def)
  have m: "''blur_mse'' = ''resize_mse'' \<or> ''blur_mse'' = ''blur_mse''" by simp
  have lv: "''blur_mse'' = ''resize_mse'' \<longrightarrow> (\<forall>p \<in> set [0, 1 :: int]. p \<le> 10)" by simp
  have out: "case None :: string option of None \<Rightarrow> True
             | Some d \<Rightarrow> [0, 1 :: int] \<noteq> [] \<and>
                 writable demo_state (path_join d (figure_name ''maps/a.pdf'' ''blur_mse''))"
    by simp
  obtain errs st' where
    r: "topomap_mse demo_lib ''maps/a.pdf'' ''blur_mse'' [0, 1] None demo_state = Inr (errs, st')"
    and l: "length errs = length [0, 1 :: int]"
    and v: "\<forall>i < length [0, 1 :: int]. \<exists>a. degraded demo_lib ''blur_mse'' demo_image ([0, 1] ! i) = Inr a
            \<and> (small_differences (array_of demo_image) a
                 \<longrightarrow> errs ! i = Float (mean_squared_error (array_of demo_image) a))"
    using topomap_mse_curve [OF demo_first_page w h m lv out] by blast
  have e0: "errs ! 0 = Float 4"
    using v [rule_format, of 0]
    by (simp add: demo_blurred demo_array small_differences_def mean_squared_error_def
        squared_differences_def)
  have e1: "errs ! 1 = Float 16"
    using v [rule_format, of 1]
    by (simp add: demo_blurred demo_array small_differences_def mean_squared_error_def
        squared_differences_def)
  have "errs = [errs ! 0, errs ! 1]" using l by (cases errs; cases "tl errs") auto
  then have "errs = [Float 4, Float 16]" using e0 e1 by simp
  then show ?thesis using r demo_first_page w h by blast
qed

text \<open>
  The claim as it stands fails twice. A level of 11 under \<open>resize_mse\<close> makes the call
  fail. And under \<open>blur_mse\<close> at level 7 every sample of the small world moves by 16: the
  mean squared error is 256, the value returned is 0.
\<close>

theorem topomap_mse_curve_counterexample:
  "topomap_mse demo_lib ''maps/a.pdf'' ''resize_mse'' [11] None demo_state = Inl ResizeValueError
   \<and> returned (topomap_mse demo_lib ''maps/a.pdf'' ''blur_mse'' [7] None demo_state)
       = Inr [Float 0]
   \<and> degraded demo_lib ''blur_mse'' demo_image 7
       = Inr \<lparr>shape = [1, 2, 3], data = [116, 116, 116, 116, 116, 116]\<rparr>
   \<and> mean_squared_error (array_of demo_image)
         \<lparr>shape = [1, 2, 3], data = [116, 116, 116, 116, 116, 116]\<rparr> = 256"
  by (simp add: topomap_mse_def convert_from_path_def demo_state_def pages_of_def np_asarray_def
      get_image_def get_array_def alloc_def open_figure_def select_fn_def call_fn_def
      topomap_rescale_def im_resize_def resize_image_def demo_image_def returned_def
      topomap_blur_def im_filter_gaussian_def gaussian_blur_def demo_lib_def array_of_def upt_rec
      image_err_def np_subtract_def np_square_def np_mean_def setitem_def np_zeros_def
      show_changed_def save_figure_def im_close_def degraded_def blurred_def
      mean_squared_error_def squared_differences_def nth_append)

text \<open>
  C6. For a metric that is neither \<open>resize_mse\<close> nor \<open>blur_mse\<close> the selection leaves
  the operator unset and does not fail: with no level (and no output directory) the call
  returns. With a level at least the loop fails at its first level, where it calls the
  unset operator, whatever the levels and the output directory are.
\<close>

theorem unset_operator_fails_at_first_level:
  assumes "first_page lib st image_path = Some im"
    and "metric \<noteq> ''resize_mse''" and "metric \<noteq> ''blur_mse''"
  shows "select_fn lib metric = None
     \<and> mse_loop (select_fn lib metric) img arr_img axes i (p # ps) errs st0 = Inl NoneNotCallable
     \<and> topomap_mse lib image_path metric (p # ps) output_dir st = Inl NoneNotCallable
     \<and> (\<exists>st'. topomap_mse lib image_path metric [] None st = Inr ([], st'))"
proof -
  obtain doc rest where f: "files st image_path = Some doc" and pg: "pages_of lib doc = im # rest"
    using first_page_files [OF assms(1)] by blast
  have s: "select_fn lib metric = None" using assms(2,3) by (rule select_fn_unset)
  obtain axes0 where o: "open_figure output_dir (length (p # ps)) (array_of im) = Inr axes0"
    using open_figure_Cons [of output_dir p ps "array_of im"] by blast
  have "topomap_mse lib image_path metric (p # ps) output_dir st = Inl NoneNotCallable"
    by (simp only: topomap_mse_unfold [OF f pg] o s mse_loop_unset sum.case)
  moreover have "\<exists>st'. topomap_mse lib image_path metric [] None st = Inr ([], st')"
    using topomap_mse_no_levels [OF f pg] by blast
  moreover have "mse_loop (select_fn lib metric) img arr_img axes i (p # ps) errs st0
                   = Inl NoneNotCallable"
    by (simp only: s mse_loop_unset)
  ultimately show ?thesis using s by blast
qed

theorem unset_operator_fails_at_first_level_witness:
  "first_page demo_lib demo_state ''maps/a.pdf'' = Some demo_image
   \<and> ''contrast_mse'' \<noteq> ''resize_mse'' \<and> ''contrast_mse'' \<noteq> ''blur_mse''
   \<and> select_fn demo_lib ''contrast_mse'' = None
   \<and> topomap_mse demo_lib ''maps/a.pdf'' ''contrast_mse'' (11 # [0, 1]) (Some ''out'') demo_state
       = Inl NoneNotCallable
   \<and> (\<exists>st'. topomap_mse demo_lib ''maps/a.pdf'' ''contrast_mse'' [] None demo_state = Inr ([], st'))"
proof -
  have f: "first_page demo_lib demo_state ''maps/a.pdf'' = Some demo_image"
    by (simp add: first_page_def demo_state_def pages_of_def)
  have m1: "''contrast_mse'' \<noteq> ''resize_mse''" by simp
  have m2: "''contrast_mse'' \<noteq> ''blur_mse''" by simp
  show ?thesis
    using unset_operator_fails_at_first_level [OF f m1 m2, of 0 0 None 0 11 "[0, 1]" "[]" demo_state "Some ''out''"] f
    by simp
qed

text \<open>
  C10. For a path whose document has a first page, no level and no output directory,
  \<^verbatim>\<open>topomap_mse\<close> returns the empty curve, whatever the metric is. The heap it leaves
  holds the pages (the first one closed) and the reference array and nothing else: no
  operator ran.
\<close>

theorem topomap_mse_empty_levels:
  assumes "files st image_path = Some doc" and "pages_of lib doc = im # rest"
  shows "topomap_mse lib image_path metric [] None st =
     Inr ([], st\<lparr>heap := heap st @ Closed # map PImage rest @ [NDArray (array_of im)]\<rparr>)"
  using assms by (rule topomap_mse_no_levels)

theorem topomap_mse_empty_levels_witness:
  "files demo_state ''maps/a.pdf'' = Some (Pages [demo_image])
   \<and> pages_of demo_lib (Pages [demo_image]) = demo_image # []
   \<and> topomap_mse demo_lib ''maps/a.pdf'' ''no_such_metric'' [] None demo_state =
       Inr ([], demo_state\<lparr>heap := [Closed, NDArray (array_of demo_image)]\<rparr>)"
proof -
  have f: "files demo_state ''maps/a.pdf'' = Some (Pages [demo_image])"
    by (simp add: demo_state_def)
  have p: "pages_of demo_lib (Pages [demo_image]) = demo_image # []"
    by (simp add: pages_of_def)
  have h: "heap demo_state = []" by (simp add: demo_state_def)
  show ?thesis
    using topomap_mse_empty_levels [OF f p, of "''no_such_metric''"] f p h by simp
qed

text \<open>
  C9. The claim: with an output directory \<^verbatim>\<open>topomap_mse\<close> saves one comparison per
  image, named by the file name without its extension, an underscore, the metric and
  \<open>.pdf\<close>, with one panel more than there are levels. Line 77 cuts the name with the
  slice \<^verbatim>\<open>[:-4]\<close>, which takes the extension off a name such as \<open>a.pdf\<close> (a dot
  and three further characters) and cuts every other name in the wrong place: the
  document \<open>fig\<close> is saved as \<open>_blur_mse.pdf\<close> and not as \<open>fig_blur_mse.pdf\<close>, whatever
  the blur computes, and a directory that holds \<open>fig\<close> and \<open>map\<close> is left with one
  comparison for its two images. With no level the call fails at \<^verbatim>\<open>axes[0]\<close> and
  saves nothing.
\<close>

theorem saved_name_drops_four_characters:
  "without_extension ''fig'' @ ''_'' @ ''blur_mse'' @ ''.pdf'' = ''fig_blur_mse.pdf''
   \<and> written (topomap_mse lib ''maps/fig'' ''blur_mse'' [0] (Some ''out'') demo_state)
       ''out/fig_blur_mse.pdf'' = None
   \<and> written (topomap_mse lib ''maps/fig'' ''blur_mse'' [0] (Some ''out'') demo_state)
       ''out/_blur_mse.pdf'' = Some (Figure (panels lib ''blur_mse'' demo_image [0]))
   \<and> left_files (compute_topomap_image_quality lib ''plain'' ''blur_mse'' [0] False (Some ''out'')
                    plain_state)
       = Some ((files plain_state)(''out/_blur_mse.pdf''
                 \<mapsto> Figure (panels lib ''blur_mse'' demo_image [0])))
   \<and> returned (topomap_mse lib ''maps/a.pdf'' ''blur_mse'' [] (Some ''out'') demo_state)
       = Inl NotSubscriptable"
proof -
  have a: "without_extension ''fig'' @ ''_'' @ ''blur_mse'' @ ''.pdf'' = ''fig_blur_mse.pdf''"
    by (simp add: without_extension_def)
  have e: "returned (topomap_mse lib ''maps/a.pdf'' ''blur_mse'' [] (Some ''out'') demo_state)
       = Inl NotSubscriptable"
    by (simp add: no_levels_figure returned_def)
  show ?thesis using a fig_saved [of lib] plain_run [of lib] e by (intro conjI) simp_all
qed

text \<open>
  C4. The claim: the error of line 73 is never negative, and it is 0 exactly when the
  degraded array is the reference array. The first half holds (\<open>image_err_nonneg\<close>).
  The second fails: the difference and its square are taken in \<open>uint8\<close>, and a sample that
  differs by 16 has the square 256, which is 0 in a byte. Here the program's error is 0
  for two arrays that differ, whose mean squared error is 256 / 3.
\<close>

theorem image_err_zero_on_different_arrays:
  "image_err \<lparr>shape = [1, 1, 3], data = [16, 0, 0]\<rparr> \<lparr>shape = [1, 1, 3], data = [0, 0, 0]\<rparr>
     = Inr (Float 0)
   \<and> mean_squared_error \<lparr>shape = [1, 1, 3], data = [16, 0, 0]\<rparr>
         \<lparr>shape = [1, 1, 3], data = [0, 0, 0]\<rparr> = 256 / 3
   \<and> data \<lparr>shape = [1, 1, 3], data = [16, 0, 0 :: pixel]\<rparr>
         \<noteq> data \<lparr>shape = [1, 1, 3], data = [0, 0, 0 :: pixel]\<rparr>"
  by (simp add: image_err_def np_subtract_def np_mean_def np_square_def
      mean_squared_error_def squared_differences_def)

section \<open>The claims: the quality of a directory\<close>

text \<open>
  C2, as amended. The image directory lists an entry at least; every entry is a document
  whose first page has a pixel at least; the metric is recognised (every level 10 at most
  for \<open>resize_mse\<close>); the comparisons can be saved when an output directory is given;
  and when \<^verbatim>\<open>return_auc\<close> is set there are two levels at least. Then
  \<^verbatim>\<open>compute_topomap_image_quality\<close> returns, for the table whose rows are the curves
  \<^verbatim>\<open>topomap_mse\<close> returns for the entries, the mean of every column, one value per
  level in the order of the levels, followed when \<^verbatim>\<open>return_auc\<close> is set by the area
  under these means by the trapezoidal rule over the indices.
\<close>

theorem dataset_quality:
  assumes d: "dirs st image_dir = Some names" and ne: "names \<noteq> []"
    and pg: "\<forall>n \<in> set names. \<exists>im. first_page lib st (path_join image_dir n) = Some im
                                   \<and> 0 < width im \<and> 0 < height im"
    and m: "metric = ''resize_mse'' \<or> metric = ''blur_mse''"
    and lv: "metric = ''resize_mse'' \<longrightarrow> (\<forall>p \<in> set params. p \<le> 10)"
    and a: "return_auc \<longrightarrow> 2 \<le> length params"
    and ms: "may_save st output_dir image_dir metric params names"
  shows "\<exists>rows st'.
     compute_topomap_image_quality lib image_dir metric params return_auc output_dir st
       = Inr (map Float (mean_curve rows (length params))
              @ (if return_auc then [Float (trapezoid (mean_curve rows (length params)))] else []),
              st')
     \<and> list_all2 (\<lambda>n row. returned (topomap_mse lib (path_join image_dir n) metric params
                                        output_dir st) = Inr (map Float row)) names rows"
  using d ne pg m lv a ms by (rule quality_of_directory)

theorem dataset_quality_witness:
  "dirs demo_state ''maps'' = Some [''a.pdf'', ''fig'']
   \<and> may_save demo_state (Some ''out'') ''maps'' ''blur_mse'' [0, 1] [''a.pdf'', ''fig'']
   \<and> returned (compute_topomap_image_quality demo_lib ''maps'' ''blur_mse'' [0, 1] True
                 (Some ''out'') demo_state) = Inr [Float 4, Float 16, Float 10]"
proof -
  have d: "dirs demo_state ''maps'' = Some [''a.pdf'', ''fig'']" by (simp add: demo_state_def)
  have ne: "[''a.pdf'', ''fig''] \<noteq> []" by simp
  have w: "0 < width demo_image" and h: "0 < height demo_image" by (simp_all add: demo_image_def)
  have pg: "\<forall>n \<in> set [''a.pdf'', ''fig'']. \<exists>im. first_page demo_lib demo_state (path_join ''maps'' n) = Some im
                                   \<and> 0 < width im \<and> 0 < height im"
    using demo_first_page demo_fig_page w h by (simp add: demo_paths)
  have m: "''blur_mse'' = ''resize_mse'' \<or> ''blur_mse'' = ''blur_mse''" by simp
  have lv: "''blur_mse'' = ''resize_mse'' \<longrightarrow> (\<forall>p \<in> set [0, 1 :: int]. p \<le> 10)" by simp
  have a: "True \<longrightarrow> 2 \<le> length [0, 1 :: int]" by simp
  obtain rows st' where
    r: "compute_topomap_image_quality demo_lib ''maps'' ''blur_mse'' [0, 1] True (Some ''out'') demo_state
       = Inr (map Float (mean_curve rows (length [0, 1 :: int]))
              @ (if True then [Float (trapezoid (mean_curve rows (length [0, 1 :: int])))] else []),
              st')"
    and e: "list_all2 (\<lambda>n row. returned (topomap_mse demo_lib (path_join ''maps'' n) ''blur_mse'' [0, 1]
                                        (Some ''out'') demo_state) = Inr (map Float row))
              [''a.pdf'', ''fig''] rows"
    using dataset_quality [OF d ne pg m lv a demo_may_save] by blast
  from e obtain r1 r2 where rows: "rows = [r1, r2]"
    and e1: "returned (topomap_mse demo_lib ''maps/a.pdf'' ''blur_mse'' [0, 1] (Some ''out'') demo_state)
               = Inr (map Float r1)"
    and e2: "returned (topomap_mse demo_lib ''maps/fig'' ''blur_mse'' [0, 1] (Some ''out'') demo_state)
               = Inr (map Float r2)"
    by (auto simp: list_all2_Cons1 demo_paths)
  have "r1 = [4, 16]" using demo_first_page e1 by (rule demo_returned)
  moreover have "r2 = [4, 16]" using demo_fig_page e2 by (rule demo_returned)
  ultimately have rows': "rows = [[4, 16], [4, 16]]" using rows by simp
  have mc: "mean_curve [[4, 16], [4, 16]] 2 = [4, 16]"
    by (simp add: mean_curve_def upt_rec)
  have tz: "trapezoid [4, 16] = 10" by (simp add: trapezoid_def)
  have l2: "length [0, 1 :: int] = 2" by simp
  have "returned (compute_topomap_image_quality demo_lib ''maps'' ''blur_mse'' [0, 1] True
                 (Some ''out'') demo_state) = Inr [Float 4, Float 16, Float 10]"
    using r unfolding rows' l2 mc tz by (simp add: returned_def)
  then show ?thesis using d demo_may_save by (intro conjI)
qed

text \<open>
  The claim as it stands fails: with a single level and \<^verbatim>\<open>return_auc\<close> set the call
  fails in \<^verbatim>\<open>auc\<close>, which wants two points; for a directory with no entry it fails at
  \<^verbatim>\<open>list\<close> of the scalar mean; and a level of 11 under \<open>resize_mse\<close> fails in the resize.
\<close>

theorem dataset_quality_counterexample:
  "returned (compute_topomap_image_quality demo_lib ''maps'' ''blur_mse'' [0] True None demo_state)
     = Inl AucTooFewPoints
   \<and> returned (compute_topomap_image_quality demo_lib ''void'' ''blur_mse'' [0, 1] False None
                 demo_state) = Inl NotIterable
   \<and> returned (compute_topomap_image_quality demo_lib ''maps'' ''resize_mse'' [11] False None
                 demo_state) = Inl ResizeValueError"
proof -
  have d: "dirs demo_state ''maps'' = Some [''a.pdf'', ''fig'']" by (simp add: demo_state_def)
  have v: "dirs demo_state ''void'' = Some []" by (simp add: demo_state_def)
  have ms: "may_save demo_state None ''maps'' ''blur_mse'' [0] [''a.pdf'', ''fig'']"
    by (simp add: may_save_def)
  obtain st' where col: "collect_errors demo_lib ''maps'' ''blur_mse'' [0] None [''a.pdf'', ''fig''] []
                 demo_state = Inr ([] @ [[Float 4], [Float 4]], st')"
    using collect_errors_ok [OF demo_curve_0_rows ms, of "[]"] by (rule exE)
  have q: "quality_values [[Float 4], [Float 4]] True = Inl AucTooFewPoints"
    by (simp add: quality_values_def np_array_def py_list_def np_mean_axis0_def fmean_def fsum_def
        auc_def np_arange_def)
  have a: "returned (compute_topomap_image_quality demo_lib ''maps'' ''blur_mse'' [0] True None
                       demo_state) = Inl AucTooFewPoints"
    using d col q by (simp add: compute_topomap_image_quality_def listdir_def returned_def)
  have b: "returned (compute_topomap_image_quality demo_lib ''void'' ''blur_mse'' [0, 1] False None
                 demo_state) = Inl NotIterable"
    using v by (simp add: compute_topomap_image_quality_def listdir_def returned_def
        quality_values_def np_array_def py_list_def np_mean_axis0_def)
  have c: "returned (compute_topomap_image_quality demo_lib ''maps'' ''resize_mse'' [11] False None
                 demo_state) = Inl ResizeValueError"
    using d demo_resize_11
    by (simp add: compute_topomap_image_quality_def listdir_def returned_def demo_paths)
  show ?thesis using a b c by (intro conjI)
qed

text \<open>
  C5. A directory lists two documents for which \<^verbatim>\<open>topomap_mse\<close> returns the curves
  \<open>[2, 4]\<close> and \<open>[6, 8]\<close> at the levels \<open>[0, 1]\<close>. Then
  \<^verbatim>\<open>compute_topomap_image_quality\<close> returns \<open>[4, 6]\<close> without the area and
  \<open>[4, 6, 5]\<close> with it, as lines 105 to 112 do on the two curves. And the area
  \<^verbatim>\<open>auc\<close> computes for a constant curve \<open>[c, c, c]\<close> over the indices 0, 1, 2 is
  \<open>2 * c\<close>.
\<close>

theorem aggregation_examples:
  assumes d: "dirs st image_dir = Some [a, b]"
    and pa: "first_page lib st (path_join image_dir a) = Some ima" "0 < width ima" "0 < height ima"
    and pb: "first_page lib st (path_join image_dir b) = Some imb" "0 < width imb" "0 < height imb"
    and m: "metric = ''resize_mse'' \<or> metric = ''blur_mse''"
    and ms: "may_save st output_dir image_dir metric [0, 1] [a, b]"
    and ca: "returned (topomap_mse lib (path_join image_dir a) metric [0, 1] output_dir st)
               = Inr [Float 2, Float 4]"
    and cb: "returned (topomap_mse lib (path_join image_dir b) metric [0, 1] output_dir st)
               = Inr [Float 6, Float 8]"
  shows "returned (compute_topomap_image_quality lib image_dir metric [0, 1] False output_dir st)
           = Inr [Float 4, Float 6]
     \<and> returned (compute_topomap_image_quality lib image_dir metric [0, 1] True output_dir st)
           = Inr [Float 4, Float 6, Float 5]
     \<and> quality_values [[Float 2, Float 4], [Float 6, Float 8]] False = Inr [Float 4, Float 6]
     \<and> quality_values [[Float 2, Float 4], [Float 6, Float 8]] True
           = Inr [Float 4, Float 6, Float 5]
     \<and> auc (np_arange 3) [Float c, Float c, Float c] = Inr (Float (2 * c))
     \<and> quality_values [[Float c, Float c, Float c]] True
           = Inr [Float c, Float c, Float c, Float (2 * c)]"
proof -
  have f: "returned (compute_topomap_image_quality lib image_dir metric [0, 1] False output_dir st)
           = Inr [Float 4, Float 6]"
    using quality_of_two [OF d pa pb m ms ca cb, of False] by simp
  have t: "returned (compute_topomap_image_quality lib image_dir metric [0, 1] True output_dir st)
           = Inr [Float 4, Float 6, Float 5]"
    using quality_of_two [OF d pa pb m ms ca cb, of True] by simp
  have q: "quality_values [[Float 2, Float 4], [Float 6, Float 8]] False = Inr [Float 4, Float 6]
     \<and> quality_values [[Float 2, Float 4], [Float 6, Float 8]] True
           = Inr [Float 4, Float 6, Float 5]
     \<and> auc (np_arange 3) [Float c, Float c, Float c] = Inr (Float (2 * c))
     \<and> quality_values [[Float c, Float c, Float c]] True
           = Inr [Float c, Float c, Float c, Float (2 * c)]"
    by (simp add: quality_values_def np_array_def py_list_def np_mean_axis0_def fmean_def fsum_def
        auc_def np_arange_def np_diff_def np_trapz_def upt_rec)
  show ?thesis using f t q by blast
qed

theorem aggregation_examples_witness:
  "dirs pair_state ''pair'' = Some [''a.pdf'', ''b.pdf'']
   \<and> returned (topomap_mse pair_lib (path_join ''pair'' ''a.pdf'') ''blur_mse'' [0, 1] None pair_state)
       = Inr [Float 2, Float 4]
   \<and> returned (topomap_mse pair_lib (path_join ''pair'' ''b.pdf'') ''blur_mse'' [0, 1] None pair_state)
       = Inr [Float 6, Float 8]
   \<and> returned (compute_topomap_image_quality pair_lib ''pair'' ''blur_mse'' [0, 1] False None pair_state)
       = Inr [Float 4, Float 6]
   \<and> returned (compute_topomap_image_quality pair_lib ''pair'' ''blur_mse'' [0, 1] True None pair_state)
       = Inr [Float 4, Float 6, Float 5]"
proof -
  have d: "dirs pair_state ''pair'' = Some [''a.pdf'', ''b.pdf'']" by (simp add: pair_state_def)
  have wa: "0 < width pair_image_a" "0 < height pair_image_a" by (simp_all add: pair_image_a_def)
  have wb: "0 < width pair_image_b" "0 < height pair_image_b" by (simp_all add: pair_image_b_def)
  have m: "''blur_mse'' = ''resize_mse'' \<or> ''blur_mse'' = ''blur_mse''" by simp
  have ms: "may_save pair_state None ''pair'' ''blur_mse'' [0, 1] [''a.pdf'', ''b.pdf'']"
    by (simp add: may_save_def)
  have "returned (compute_topomap_image_quality pair_lib ''pair'' ''blur_mse'' [0, 1] False None pair_state)
       = Inr [Float 4, Float 6]
   \<and> returned (compute_topomap_image_quality pair_lib ''pair'' ''blur_mse'' [0, 1] True None pair_state)
       = Inr [Float 4, Float 6, Float 5]"
    using aggregation_examples [OF d pair_page_a wa pair_page_b wb m ms pair_returned_a pair_returned_b]
    by blast
  then show ?thesis using d pair_returned_a pair_returned_b by blast
qed

end
